theory Spec2Isabelle
  imports Complex_Main "HOL-Library.Option_ord"
begin

section \<open>Filter composition (queries.py, lines 10-25)\<close>

text \<open>
  The bound-parameter mapping \<open>params\<close> of a query is a Python dict from parameter
  names to tuples of filter values. Filter values are the strings chosen in the sidebar
  multiselects; an absent argument is \<open>None\<close>.
\<close>

type_synonym params = "string \<rightharpoonup> string list"

text \<open>Python truthiness of a filter argument: \<open>None\<close> and the empty list are falsy.\<close>

definition truthy :: "string list option \<Rightarrow> bool" where
  "truthy vals = (case vals of None \<Rightarrow> False | Some vs \<Rightarrow> vs \<noteq> [])"

text \<open>\<open>tuple(values)\<close>, read only where \<open>values\<close> is truthy.\<close>

definition tuple :: "string list option \<Rightarrow> string list" where
  "tuple vals = (case vals of None \<Rightarrow> [] | Some vs \<Rightarrow> vs)"

text \<open>
  \<^verbatim>\<open>
  def _in_clause(col, values, name, params):
      if values:
          params[name] = tuple(values)
          return f"{col} IN %({name})s"
      return ""
  \<close>
  The dict is mutated in place; the model returns the updated dict with the snippet.
\<close>

definition in_clause :: "string \<Rightarrow> string list option \<Rightarrow> string \<Rightarrow> params \<Rightarrow> string \<times> params" where
  "in_clause col vals name params =
     (if truthy vals
      then (col @ '' IN %('' @ name @ '')s'', params(name \<mapsto> tuple vals))
      else ('''', params))"

text \<open>\<open>sep.join(xs)\<close> of Python.\<close>

fun join_str :: "string \<Rightarrow> string list \<Rightarrow> string" where
  "join_str sep [] = []"
| "join_str sep [x] = x"
| "join_str sep (x # y # ys) = x @ sep @ join_str sep (y # ys)"

text \<open>
  \<^verbatim>\<open>
  def _and_join(conditions):
      conds = [c for c in conditions if c]
      if not conds:
          return ""
      return " WHERE " + " AND ".join(conds)
  \<close>
\<close>

definition and_join :: "string list \<Rightarrow> string" where
  "and_join conditions =
     (let conds = filter (\<lambda>c. c \<noteq> []) conditions
      in if conds = [] then [] else '' WHERE '' @ join_str '' AND '' conds)"

text \<open>
  A filter dimension as a call site hands it to \<open>_in_clause\<close>: the column it is bound to,
  the selected values, and the name of its bound parameter. Every query function builds its
  fragment by evaluating one \<open>_in_clause\<close> call per dimension, left to right on one shared
  dict, and passing the snippets to \<open>_and_join\<close>; \<open>where_clause\<close> is that calling pattern
  for an arbitrary list of dimensions.
\<close>

type_synonym dimension = "string \<times> string list option \<times> string"

fun in_clauses :: "dimension list \<Rightarrow> params \<Rightarrow> string list \<times> params" where
  "in_clauses [] params = ([], params)"
| "in_clauses ((col, vals, name) # ds) params =
     (let (c, params1) = in_clause col vals name params;
          (cs, params2) = in_clauses ds params1
      in (c # cs, params2))"

definition where_clause :: "dimension list \<Rightarrow> string \<times> params" where
  "where_clause ds = (let (conds, params) = in_clauses ds Map.empty in (and_join conds, params))"

text \<open>The dimensions that contribute a clause, and the clause each one contributes.\<close>

definition active :: "dimension list \<Rightarrow> dimension list" where
  "active ds = filter (\<lambda>(col, vals, name). truthy vals) ds"

definition clause_text :: "dimension \<Rightarrow> string" where
  "clause_text d = (case d of (col, vals, name) \<Rightarrow> col @ '' IN %('' @ name @ '')s'')"


section \<open>The store's reading of a fragment\<close>

text \<open>
  The relational store and its driver are external to the repository. What they do with a
  generated fragment is modelled on the text itself: the fragment is split into
  blank-separated tokens and read as \<open>WHERE cond AND ... AND cond\<close>, where a condition is
  either \<open>column IN %(name)s\<close> (a named placeholder, bound by the driver to the tuple
  stored under \<open>name\<close>) or \<open>column = 'literal'\<close>. A column resolves, for the rows of the
  query's join path, to an accessor returning the row's value or SQL \<open>NULL\<close> (\<open>None\<close>).
  String comparison is exact (a binary collation).
\<close>

fun tokens_from :: "string \<Rightarrow> string \<Rightarrow> string list" where
  "tokens_from w [] = (if w = [] then [] else [w])"
| "tokens_from w (c # cs) =
     (if c = CHR '' ''
      then (if w = [] then tokens_from [] cs else w # tokens_from [] cs)
      else tokens_from (w @ [c]) cs)"

definition tokens :: "string \<Rightarrow> string list" where
  "tokens s = tokens_from [] s"

datatype cond = In_param string string | Eq_literal string string

definition placeholder :: "string \<Rightarrow> string option" where
  "placeholder t =
     (if 4 \<le> length t \<and> take 2 t = ''%('' \<and> drop (length t - 2) t = '')s''
      then Some (take (length t - 4) (drop 2 t)) else None)"

definition quoted :: "string \<Rightarrow> string option" where
  "quoted t =
     (if 2 \<le> length t \<and> hd t = CHR 0x27 \<and> last t = CHR 0x27 \<and> CHR 0x27 \<notin> set (butlast (tl t))
      then Some (butlast (tl t)) else None)"

definition parse_atom :: "string \<Rightarrow> string \<Rightarrow> string \<Rightarrow> cond option" where
  "parse_atom col opr arg =
     (if opr = ''IN'' then map_option (In_param col) (placeholder arg)
      else if opr = ''='' then map_option (Eq_literal col) (quoted arg)
      else None)"

fun parse_conds :: "string list \<Rightarrow> cond list option" where
  "parse_conds [col, opr, arg] = map_option (\<lambda>k. [k]) (parse_atom col opr arg)"
| "parse_conds (col # opr # arg # kw # rest) =
     (if kw = ''AND''
      then (case parse_atom col opr arg of
              None \<Rightarrow> None
            | Some k \<Rightarrow> map_option (Cons k) (parse_conds rest))
      else None)"
| "parse_conds _ = None"

definition parse_where :: "string \<Rightarrow> cond list option" where
  "parse_where frag =
     (case tokens frag of
        [] \<Rightarrow> Some []
      | kw # ts \<Rightarrow> if kw = ''WHERE'' then parse_conds ts else None)"

type_synonym 'r columns = "string \<Rightarrow> ('r \<Rightarrow> string option) option"

datatype sql_error =
    Syntax_error
  | Missing_parameter string
  | Empty_in_list string
  | Unknown_column string

fun check_cond :: "'r columns \<Rightarrow> params \<Rightarrow> cond \<Rightarrow> sql_error option" where
  "check_cond cols ps (In_param col name) =
     (case ps name of
        None \<Rightarrow> Some (Missing_parameter name)
      | Some vs \<Rightarrow>
          if vs = [] then Some (Empty_in_list name)
          else (case cols col of None \<Rightarrow> Some (Unknown_column col) | Some acc \<Rightarrow> None))"
| "check_cond cols ps (Eq_literal col l) =
     (case cols col of None \<Rightarrow> Some (Unknown_column col) | Some acc \<Rightarrow> None)"

fun first_error :: "'r columns \<Rightarrow> params \<Rightarrow> cond list \<Rightarrow> sql_error option" where
  "first_error cols ps [] = None"
| "first_error cols ps (k # ks) =
     (case check_cond cols ps k of Some e \<Rightarrow> Some e | None \<Rightarrow> first_error cols ps ks)"

text \<open>
  A row is selected when every condition is true; a comparison with \<open>NULL\<close> is unknown,
  so the row is not selected.
\<close>

fun cond_holds :: "'r columns \<Rightarrow> params \<Rightarrow> 'r \<Rightarrow> cond \<Rightarrow> bool" where
  "cond_holds cols ps r (In_param col name) =
     (case cols col of
        None \<Rightarrow> False
      | Some acc \<Rightarrow>
          (case ps name of
             None \<Rightarrow> False
           | Some vs \<Rightarrow> (case acc r of None \<Rightarrow> False | Some s \<Rightarrow> s \<in> set vs)))"
| "cond_holds cols ps r (Eq_literal col l) =
     (case cols col of None \<Rightarrow> False | Some acc \<Rightarrow> acc r = Some l)"

definition compile_where :: "'r columns \<Rightarrow> string \<Rightarrow> params \<Rightarrow> sql_error + ('r \<Rightarrow> bool)" where
  "compile_where cols frag ps =
     (case parse_where frag of
        None \<Rightarrow> Inl Syntax_error
      | Some ks \<Rightarrow>
          (case first_error cols ps ks of
             Some e \<Rightarrow> Inl e
           | None \<Rightarrow> Inr (\<lambda>r. list_all (cond_holds cols ps r) ks)))"

text \<open>
  What the specification asks of a row, stated without reference to the text: for every
  dimension with a non-empty selection, the value of the bound column is one of the
  selected values.
\<close>

definition dimension_holds :: "'r columns \<Rightarrow> 'r \<Rightarrow> dimension \<Rightarrow> bool" where
  "dimension_holds cols r d =
     (case d of (col, vals, name) \<Rightarrow>
        (case cols col of
           None \<Rightarrow> False
         | Some acc \<Rightarrow> (case acc r of None \<Rightarrow> False | Some s \<Rightarrow> s \<in> set (tuple vals))))"

definition matches :: "'r columns \<Rightarrow> dimension list \<Rightarrow> 'r \<Rightarrow> bool" where
  "matches cols ds r = list_all (dimension_holds cols r) (active ds)"

text \<open>
  Call sites use column identifiers and parameter names without blanks, columns that exist
  on the join path, and one parameter name per dimension.
\<close>

definition well_formed :: "'r columns \<Rightarrow> dimension list \<Rightarrow> bool" where
  "well_formed cols ds =
     (list_all (\<lambda>(col, vals, name).
          col \<noteq> [] \<and> CHR '' '' \<notin> set col \<and> CHR '' '' \<notin> set name \<and> cols col \<noteq> None) ds
      \<and> distinct (map (\<lambda>(col, vals, name). name) ds))"


text \<open>Notions used to state facts about the tokeniser and the parser.\<close>

definition token :: "string \<Rightarrow> bool" where
  "token w = (w \<noteq> [] \<and> CHR '' '' \<notin> set w)"

definition dim_ok :: "dimension \<Rightarrow> bool" where
  "dim_ok d = (case d of (col, vals, name) \<Rightarrow> token col \<and> CHR '' '' \<notin> set name)"

text \<open>What of a dimension the generated text may depend on: the column, whether there is a
  selection, and the parameter name.\<close>

definition shape :: "dimension \<Rightarrow> string \<times> bool \<times> string" where
  "shape d = (case d of (col, vals, name) \<Rightarrow> (col, truthy vals, name))"

definition cond_of :: "dimension \<Rightarrow> cond" where
  "cond_of d = (case d of (col, vals, name) \<Rightarrow> In_param col name)"


section \<open>The store\<close>

text \<open>
  Modelled from the spec: the declarations of the four tables (no schema is among the
  source files; section 3 of the specification lists the columns, and the column lists of
  the \<open>SELECT\<close> and \<open>INSERT\<close> statements of app.py agree with it). Keys and quantities are
  integers. Text columns may hold SQL \<open>NULL\<close> (\<open>None\<close>): app.py drops missing values of
  City, Location, Type, Food\_Type, Meal\_Type and Status before offering them as filter
  options, and the specification keeps \<open>NULL\<close> groups in grouped reports.
\<close>

type_synonym sql_text = "string option"

record provider =
  Provider_ID :: int
  p_Name :: sql_text
  p_Type :: sql_text
  p_City :: sql_text
  p_Contact :: sql_text
  p_Address :: sql_text

record receiver =
  Receiver_ID :: int
  r_Name :: sql_text
  r_Type :: sql_text
  r_City :: sql_text
  r_Contact :: sql_text

record food_listing =
  Food_ID :: int
  Food_Name :: sql_text
  Quantity :: int
  Expiry_Date :: sql_text
  f_Provider_ID :: int
  Provider_Type :: sql_text
  Location :: sql_text
  Food_Type :: sql_text
  Meal_Type :: sql_text

record claim =
  Claim_ID :: int
  c_Food_ID :: int
  c_Receiver_ID :: int
  Status :: sql_text
  Timestamp :: sql_text

record store =
  providers :: "provider list"
  receivers :: "receiver list"
  food_listings :: "food_listing list"
  claims :: "claim list"

text \<open>The text columns of each table, by name.\<close>

definition providers_columns :: "provider columns" where
  "providers_columns col =
     (if col = ''Name'' then Some p_Name
      else if col = ''Type'' then Some p_Type
      else if col = ''City'' then Some p_City
      else if col = ''Contact'' then Some p_Contact
      else if col = ''Address'' then Some p_Address
      else None)"

definition receivers_columns :: "receiver columns" where
  "receivers_columns col =
     (if col = ''Name'' then Some r_Name
      else if col = ''Type'' then Some r_Type
      else if col = ''City'' then Some r_City
      else if col = ''Contact'' then Some r_Contact
      else None)"

definition food_listings_columns :: "food_listing columns" where
  "food_listings_columns col =
     (if col = ''Food_Name'' then Some Food_Name
      else if col = ''Expiry_Date'' then Some Expiry_Date
      else if col = ''Provider_Type'' then Some Provider_Type
      else if col = ''Location'' then Some Location
      else if col = ''Food_Type'' then Some Food_Type
      else if col = ''Meal_Type'' then Some Meal_Type
      else None)"

definition claims_columns :: "claim columns" where
  "claims_columns col =
     (if col = ''Status'' then Some Status
      else if col = ''Timestamp'' then Some Timestamp
      else None)"

text \<open>A table under an alias (\<open>FROM claims c\<close>): its columns are written \<open>c.Status\<close>.\<close>

definition aliased :: "string \<Rightarrow> 'r columns \<Rightarrow> 'r columns" where
  "aliased alias cols col =
     (if take (Suc (length alias)) col = alias @ ''.''
      then cols (drop (Suc (length alias)) col) else None)"

text \<open>The rows of \<open>A JOIN B ON on\<close> are pairs; a column is looked up on the left, then on
  the right.\<close>

definition inner_join :: "'a list \<Rightarrow> 'b list \<Rightarrow> ('a \<Rightarrow> 'b \<Rightarrow> bool) \<Rightarrow> ('a \<times> 'b) list" where
  "inner_join as bs on = concat (map (\<lambda>a. map (Pair a) (filter (on a) bs)) as)"

definition join_columns :: "'a columns \<Rightarrow> 'b columns \<Rightarrow> ('a \<times> 'b) columns" where
  "join_columns ca cb col =
     (case ca col of
        Some acc \<Rightarrow> Some (\<lambda>row. acc (fst row))
      | None \<Rightarrow> (case cb col of Some acc \<Rightarrow> Some (\<lambda>row. acc (snd row)) | None \<Rightarrow> None))"

text \<open>\<open>SELECT ... FROM rows WHERE fragment\<close>: the selected rows, or the store's error.\<close>

definition select_from :: "'r columns \<Rightarrow> string \<Rightarrow> params \<Rightarrow> 'r list \<Rightarrow> sql_error + 'r list" where
  "select_from cols frag ps rows =
     (case compile_where cols frag ps of Inl e \<Rightarrow> Inl e | Inr sel \<Rightarrow> Inr (filter sel rows))"

text \<open>
  \<open>GROUP BY key\<close> with one aggregate per group. The order of the groups of an unordered
  query, and of ties under \<open>ORDER BY ... DESC\<close>, is the store's choice; the model takes the
  groups in order of first appearance and sorts stably.
\<close>

definition group_by :: "('r \<Rightarrow> 'k) \<Rightarrow> ('r list \<Rightarrow> 'v) \<Rightarrow> 'r list \<Rightarrow> ('k \<times> 'v) list" where
  "group_by key agg rows =
     map (\<lambda>k. (k, agg (filter (\<lambda>r. key r = k) rows))) (remdups (map key rows))"

definition order_desc :: "('a \<Rightarrow> 'v::linorder) \<Rightarrow> 'a list \<Rightarrow> 'a list" where
  "order_desc f xs = rev (sort_key f xs)"

text \<open>\<open>SUM\<close> is \<open>NULL\<close> over no rows; \<open>COALESCE(x, d)\<close> replaces \<open>NULL\<close> by \<open>d\<close>.\<close>

definition sql_sum :: "int list \<Rightarrow> int option" where
  "sql_sum xs = (if xs = [] then None else Some (sum_list xs))"

definition coalesce :: "'a option \<Rightarrow> 'a \<Rightarrow> 'a" where
  "coalesce x d = (case x of None \<Rightarrow> d | Some v \<Rightarrow> v)"

text \<open>\<open>AVG\<close> over a group (a group is never empty), as the exact quotient.\<close>

definition sql_avg :: "int list \<Rightarrow> rat" where
  "sql_avg xs = of_int (sum_list xs) / of_nat (length xs)"


text \<open>What a query function makes of the selected rows; an error of the store is passed on.\<close>

definition on_rows :: "('a \<Rightarrow> 'b) \<Rightarrow> sql_error + 'a \<Rightarrow> sql_error + 'b" where
  "on_rows f res = (case res of Inl e \<Rightarrow> Inl e | Inr rows \<Rightarrow> Inr (f rows))"

text \<open>
  Several query functions guard the call:
  \<^verbatim>\<open>
  if cities:
      conditions.append(_in_clause("r.City", cities, "cities", params))
  \<close>
\<close>

definition append_clause ::
  "string \<Rightarrow> string list option \<Rightarrow> string \<Rightarrow> string list \<times> params \<Rightarrow> string list \<times> params" where
  "append_clause col vals name cp =
     (case cp of (conditions, params) \<Rightarrow>
        if truthy vals
        then (let (c, params1) = in_clause col vals name params in (conditions @ [c], params1))
        else (conditions, params))"


section \<open>KPI queries (queries.py, lines 32-113)\<close>

text \<open>
  Each function returns a data frame with one row and one column; the model returns that
  cell. \<^verbatim>\<open>SELECT COUNT(*) AS total_providers FROM providers {where}\<close>
\<close>

definition count_providers :: "store \<Rightarrow> string list option \<Rightarrow> string list option \<Rightarrow> sql_error + nat" where
  "count_providers st cities provider_types =
     (let params = Map.empty;
          (c1, params) = in_clause ''City'' cities ''cities'' params;
          (c2, params) = in_clause ''Type'' provider_types ''ptypes'' params;
          wh = and_join [c1, c2]
      in on_rows length (select_from providers_columns wh params (providers st)))"

text \<open>\<^verbatim>\<open>SELECT COUNT(*) AS total_receivers FROM receivers {where}\<close>\<close>

definition count_receivers :: "store \<Rightarrow> string list option \<Rightarrow> sql_error + nat" where
  "count_receivers st cities =
     (let params = Map.empty;
          (c1, params) = in_clause ''City'' cities ''cities'' params;
          wh = and_join [c1]
      in on_rows length (select_from receivers_columns wh params (receivers st)))"

text \<open>
  \<^verbatim>\<open>SELECT COUNT(*) AS total_claims FROM claims c {joins} {where}\<close>, where \<open>joins\<close> is
  \<^verbatim>\<open>JOIN receivers r ON c.Receiver_ID = r.Receiver_ID\<close> when cities are given and empty
  otherwise.
\<close>

definition count_claims :: "store \<Rightarrow> string list option \<Rightarrow> string list option \<Rightarrow> sql_error + nat" where
  "count_claims st cities claim_statuses =
     (let (conditions, params) =
            append_clause ''c.Status'' claim_statuses ''cstats''
              (append_clause ''r.City'' cities ''cities'' ([], Map.empty));
          wh = and_join conditions
      in if truthy cities
         then on_rows length
                (select_from (join_columns (aliased ''c'' claims_columns) (aliased ''r'' receivers_columns))
                   wh params
                   (inner_join (claims st) (receivers st) (\<lambda>c r. c_Receiver_ID c = Receiver_ID r)))
         else on_rows length (select_from (aliased ''c'' claims_columns) wh params (claims st)))"

text \<open>\<^verbatim>\<open>SELECT COALESCE(SUM(Quantity), 0) AS total_qty FROM food_listings {where}\<close>\<close>

definition total_food_quantity_filtered ::
  "store \<Rightarrow> string list option \<Rightarrow> string list option \<Rightarrow> string list option \<Rightarrow> string list option
     \<Rightarrow> sql_error + int" where
  "total_food_quantity_filtered st cities provider_types food_types meal_types =
     (let params = Map.empty;
          (c1, params) = in_clause ''Location'' cities ''cities'' params;
          (c2, params) = in_clause ''Provider_Type'' provider_types ''ptypes'' params;
          (c3, params) = in_clause ''Food_Type'' food_types ''ftypes'' params;
          (c4, params) = in_clause ''Meal_Type'' meal_types ''mtypes'' params;
          conditions = [c1, c2, c3, c4];
          wh = and_join conditions
      in on_rows (\<lambda>rows. coalesce (sql_sum (map Quantity rows)) 0)
           (select_from food_listings_columns wh params (food_listings st)))"


section \<open>Reports (queries.py, lines 120-523)\<close>

text \<open>1. \<^verbatim>\<open>SELECT City, COUNT(*) AS Provider_Count FROM providers {where} GROUP BY City\<close>\<close>

definition providers_per_city ::
  "store \<Rightarrow> string list option \<Rightarrow> string list option \<Rightarrow> sql_error + (sql_text \<times> nat) list" where
  "providers_per_city st cities provider_types =
     (let params = Map.empty;
          (c1, params) = in_clause ''City'' cities ''cities'' params;
          (c2, params) = in_clause ''Type'' provider_types ''ptypes'' params;
          conditions = [c1, c2];
          wh = and_join conditions
      in on_rows (group_by p_City length)
           (select_from providers_columns wh params (providers st)))"

text \<open>2. \<^verbatim>\<open>SELECT City, COUNT(*) AS Receiver_Count FROM receivers {where} GROUP BY City\<close>\<close>

definition receivers_per_city :: "store \<Rightarrow> string list option \<Rightarrow> sql_error + (sql_text \<times> nat) list" where
  "receivers_per_city st cities =
     (let params = Map.empty;
          (c1, params) = in_clause ''City'' cities ''cities'' params;
          wh = and_join [c1]
      in on_rows (group_by r_City length)
           (select_from receivers_columns wh params (receivers st)))"

text \<open>3. \<^verbatim>\<open>SELECT Type, COUNT(*) AS Contribution_Count FROM providers {where}
  GROUP BY Type ORDER BY Contribution_Count DESC\<close>\<close>

definition top_provider_types :: "store \<Rightarrow> string list option \<Rightarrow> sql_error + (sql_text \<times> nat) list" where
  "top_provider_types st cities =
     (let params = Map.empty;
          (c1, params) = in_clause ''City'' cities ''cities'' params;
          wh = and_join [c1]
      in on_rows (\<lambda>rows. order_desc snd (group_by p_Type length rows))
           (select_from providers_columns wh params (providers st)))"

text \<open>4. \<^verbatim>\<open>SELECT Name, City, Contact FROM providers {where}\<close>\<close>

definition provider_contacts ::
  "store \<Rightarrow> string list option \<Rightarrow> sql_error + (sql_text \<times> sql_text \<times> sql_text) list" where
  "provider_contacts st cities =
     (let params = Map.empty;
          (c1, params) = in_clause ''City'' cities ''cities'' params;
          wh = and_join [c1]
      in on_rows (map (\<lambda>p. (p_Name p, p_City p, p_Contact p)))
           (select_from providers_columns wh params (providers st)))"

text \<open>5. \<^verbatim>\<open>SELECT r.Name, r.City, COUNT(c.Claim_ID) AS Total_Claims FROM receivers r
  JOIN claims c ON r.Receiver_ID = c.Receiver_ID {where}
  GROUP BY r.Name, r.City ORDER BY Total_Claims DESC\<close>\<close>

definition top_receivers ::
  "store \<Rightarrow> string list option \<Rightarrow> string list option
     \<Rightarrow> sql_error + ((sql_text \<times> sql_text) \<times> nat) list" where
  "top_receivers st cities claim_statuses =
     (let (conditions, params) =
            append_clause ''c.Status'' claim_statuses ''cstats''
              (append_clause ''r.City'' cities ''cities'' ([], Map.empty));
          wh = and_join conditions
      in on_rows (\<lambda>rows. order_desc snd
                    (group_by (\<lambda>row. (r_Name (fst row), r_City (fst row))) length rows))
           (select_from (join_columns (aliased ''r'' receivers_columns) (aliased ''c'' claims_columns))
              wh params
              (inner_join (receivers st) (claims st) (\<lambda>r c. Receiver_ID r = c_Receiver_ID c))))"

text \<open>6. \<^verbatim>\<open>SELECT SUM(Quantity) AS Total_Quantity FROM food_listings\<close>
  (unfiltered, "kept for compatibility"): one row whose cell is the sum or \<open>NULL\<close>.\<close>

definition total_food_quantity :: "store \<Rightarrow> int option" where
  "total_food_quantity st = sql_sum (map Quantity (food_listings st))"

text \<open>7. \<^verbatim>\<open>SELECT Location AS City, COUNT(*) AS Listings FROM food_listings {where}
  GROUP BY Location ORDER BY Listings DESC\<close>\<close>

definition city_highest_listings ::
  "store \<Rightarrow> string list option \<Rightarrow> string list option \<Rightarrow> string list option \<Rightarrow> string list option
     \<Rightarrow> sql_error + (sql_text \<times> nat) list" where
  "city_highest_listings st cities provider_types food_types meal_types =
     (let params = Map.empty;
          (c1, params) = in_clause ''Location'' cities ''cities'' params;
          (c2, params) = in_clause ''Provider_Type'' provider_types ''ptypes'' params;
          (c3, params) = in_clause ''Food_Type'' food_types ''ftypes'' params;
          (c4, params) = in_clause ''Meal_Type'' meal_types ''mtypes'' params;
          conditions = [c1, c2, c3, c4];
          wh = and_join conditions
      in on_rows (\<lambda>rows. order_desc snd (group_by Location length rows))
           (select_from food_listings_columns wh params (food_listings st)))"

text \<open>8. \<^verbatim>\<open>SELECT Food_Type, COUNT(*) AS Count FROM food_listings {where}
  GROUP BY Food_Type ORDER BY Count DESC\<close>\<close>

definition common_food_types :: "store \<Rightarrow> string list option \<Rightarrow> sql_error + (sql_text \<times> nat) list" where
  "common_food_types st cities =
     (let params = Map.empty;
          (c1, params) = in_clause ''Location'' cities ''cities'' params;
          wh = and_join [c1]
      in on_rows (\<lambda>rows. order_desc snd (group_by Food_Type length rows))
           (select_from food_listings_columns wh params (food_listings st)))"


text \<open>9. \<^verbatim>\<open>SELECT f.Food_Name, COUNT(c.Claim_ID) AS Claim_Count FROM food_listings f
  JOIN claims c ON f.Food_ID = c.Food_ID JOIN receivers r ON c.Receiver_ID = r.Receiver_ID
  {where} GROUP BY f.Food_Name ORDER BY Claim_Count DESC\<close>\<close>

definition claims_per_food ::
  "store \<Rightarrow> string list option \<Rightarrow> string list option \<Rightarrow> sql_error + (sql_text \<times> nat) list" where
  "claims_per_food st cities claim_statuses =
     (let (conditions, params) =
            append_clause ''c.Status'' claim_statuses ''cstats''
              (append_clause ''r.City'' cities ''cities'' ([], Map.empty));
          wh = and_join conditions
      in on_rows (\<lambda>rows. order_desc snd (group_by (\<lambda>row. Food_Name (fst (fst row))) length rows))
           (select_from
              (join_columns
                 (join_columns (aliased ''f'' food_listings_columns) (aliased ''c'' claims_columns))
                 (aliased ''r'' receivers_columns))
              wh params
              (inner_join
                 (inner_join (food_listings st) (claims st) (\<lambda>f c. Food_ID f = c_Food_ID c))
                 (receivers st) (\<lambda>fc r. c_Receiver_ID (snd fc) = Receiver_ID r))))"

text \<open>The literal condition \<^verbatim>\<open>c.Status = 'Completed'\<close> (the last character is the closing quote).\<close>

definition completed_condition :: string where
  "completed_condition = ''c.Status = 'Completed'' @ [CHR 0x27]"

text \<open>10. \<^verbatim>\<open>SELECT p.Name, COUNT(c.Claim_ID) AS Successful_Claims FROM providers p
  JOIN food_listings f ON p.Provider_ID = f.Provider_ID JOIN claims c ON f.Food_ID = c.Food_ID
  {where} GROUP BY p.Name ORDER BY Successful_Claims DESC\<close>, where the list of conditions
  starts as \<^verbatim>\<open>["c.Status = 'Completed'"]\<close>.\<close>

definition top_providers_successful_claims_where :: "string list option \<Rightarrow> string \<times> params" where
  "top_providers_successful_claims_where cities =
     (let (conditions, params) =
            append_clause ''p.City'' cities ''cities'' ([completed_condition], Map.empty)
      in (and_join conditions, params))"

definition top_providers_successful_claims ::
  "store \<Rightarrow> string list option \<Rightarrow> sql_error + (sql_text \<times> nat) list" where
  "top_providers_successful_claims st cities =
     (let (wh, params) = top_providers_successful_claims_where cities
      in on_rows (\<lambda>rows. order_desc snd (group_by (\<lambda>row. p_Name (fst (fst row))) length rows))
           (select_from
              (join_columns
                 (join_columns (aliased ''p'' providers_columns) (aliased ''f'' food_listings_columns))
                 (aliased ''c'' claims_columns))
              wh params
              (inner_join
                 (inner_join (providers st) (food_listings st) (\<lambda>p f. Provider_ID p = f_Provider_ID f))
                 (claims st) (\<lambda>pf c. Food_ID (snd pf) = c_Food_ID c))))"

text \<open>11. \<^verbatim>\<open>SELECT c.Status, COUNT(*) AS Count FROM claims c {joins} {where}
  GROUP BY c.Status\<close>, with the join to receivers only when cities are given.\<close>

definition claim_status_distribution ::
  "store \<Rightarrow> string list option \<Rightarrow> sql_error + (sql_text \<times> nat) list" where
  "claim_status_distribution st cities =
     (let (conditions, params) = append_clause ''r.City'' cities ''cities'' ([], Map.empty);
          wh = and_join conditions
      in if truthy cities
         then on_rows (group_by (\<lambda>row. Status (fst row)) length)
                (select_from (join_columns (aliased ''c'' claims_columns) (aliased ''r'' receivers_columns))
                   wh params
                   (inner_join (claims st) (receivers st) (\<lambda>c r. c_Receiver_ID c = Receiver_ID r)))
         else on_rows (group_by Status length)
                (select_from (aliased ''c'' claims_columns) wh params (claims st)))"

text \<open>12. \<^verbatim>\<open>SELECT r.Name, AVG(f.Quantity) AS Avg_Quantity FROM receivers r
  JOIN claims c ON r.Receiver_ID = c.Receiver_ID JOIN food_listings f ON c.Food_ID = f.Food_ID
  {where} GROUP BY r.Name ORDER BY Avg_Quantity DESC\<close>\<close>

definition avg_quantity_per_receiver ::
  "store \<Rightarrow> string list option \<Rightarrow> sql_error + (sql_text \<times> rat) list" where
  "avg_quantity_per_receiver st cities =
     (let (conditions, params) = append_clause ''r.City'' cities ''cities'' ([], Map.empty);
          wh = and_join conditions
      in on_rows (\<lambda>rows. order_desc snd
                    (group_by (\<lambda>row. r_Name (fst (fst row)))
                       (\<lambda>g. sql_avg (map (\<lambda>row. Quantity (snd row)) g)) rows))
           (select_from
              (join_columns
                 (join_columns (aliased ''r'' receivers_columns) (aliased ''c'' claims_columns))
                 (aliased ''f'' food_listings_columns))
              wh params
              (inner_join
                 (inner_join (receivers st) (claims st) (\<lambda>r c. Receiver_ID r = c_Receiver_ID c))
                 (food_listings st) (\<lambda>rc f. c_Food_ID (snd rc) = Food_ID f))))"

text \<open>13. \<^verbatim>\<open>SELECT f.Meal_Type, COUNT(c.Claim_ID) AS Claim_Count FROM food_listings f
  JOIN claims c ON f.Food_ID = c.Food_ID JOIN receivers r ON c.Receiver_ID = r.Receiver_ID
  {where} GROUP BY f.Meal_Type ORDER BY Claim_Count DESC\<close>\<close>

definition most_claimed_meal_type ::
  "store \<Rightarrow> string list option \<Rightarrow> sql_error + (sql_text \<times> nat) list" where
  "most_claimed_meal_type st cities =
     (let (conditions, params) = append_clause ''r.City'' cities ''cities'' ([], Map.empty);
          wh = and_join conditions
      in on_rows (\<lambda>rows. order_desc snd (group_by (\<lambda>row. Meal_Type (fst (fst row))) length rows))
           (select_from
              (join_columns
                 (join_columns (aliased ''f'' food_listings_columns) (aliased ''c'' claims_columns))
                 (aliased ''r'' receivers_columns))
              wh params
              (inner_join
                 (inner_join (food_listings st) (claims st) (\<lambda>f c. Food_ID f = c_Food_ID c))
                 (receivers st) (\<lambda>fc r. c_Receiver_ID (snd fc) = Receiver_ID r))))"

text \<open>14. \<^verbatim>\<open>SELECT p.Name, SUM(f.Quantity) AS Total_Quantity FROM providers p
  JOIN food_listings f ON p.Provider_ID = f.Provider_ID {where}
  GROUP BY p.Name ORDER BY Total_Quantity DESC\<close>\<close>

definition total_quantity_per_provider ::
  "store \<Rightarrow> string list option \<Rightarrow> sql_error + (sql_text \<times> int option) list" where
  "total_quantity_per_provider st cities =
     (let (conditions, params) = append_clause ''p.City'' cities ''cities'' ([], Map.empty);
          wh = and_join conditions
      in on_rows (\<lambda>rows. order_desc snd
                    (group_by (\<lambda>row. p_Name (fst row))
                       (\<lambda>g. sql_sum (map (\<lambda>row. Quantity (snd row)) g)) rows))
           (select_from (join_columns (aliased ''p'' providers_columns) (aliased ''f'' food_listings_columns))
              wh params
              (inner_join (providers st) (food_listings st) (\<lambda>p f. Provider_ID p = f_Provider_ID f))))"

text \<open>15. \<^verbatim>\<open>SELECT r.City, COUNT(c.Claim_ID) AS Claim_Count FROM receivers r
  JOIN claims c ON r.Receiver_ID = c.Receiver_ID {where}
  GROUP BY r.City ORDER BY Claim_Count DESC\<close>\<close>

definition cities_with_most_claims ::
  "store \<Rightarrow> string list option \<Rightarrow> sql_error + (sql_text \<times> nat) list" where
  "cities_with_most_claims st cities =
     (let (conditions, params) = append_clause ''r.City'' cities ''cities'' ([], Map.empty);
          wh = and_join conditions
      in on_rows (\<lambda>rows. order_desc snd (group_by (\<lambda>row. r_City (fst row)) length rows))
           (select_from (join_columns (aliased ''r'' receivers_columns) (aliased ''c'' claims_columns))
              wh params
              (inner_join (receivers st) (claims st) (\<lambda>r c. Receiver_ID r = c_Receiver_ID c))))"

text \<open>
  The selection a filter argument makes on a column value: no restriction when the argument
  is empty or absent, membership otherwise (never satisfied by \<open>NULL\<close>).
\<close>

definition selected :: "sql_text \<Rightarrow> string list option \<Rightarrow> bool" where
  "selected v vals =
     (if truthy vals then (case v of None \<Rightarrow> False | Some s \<Rightarrow> s \<in> set (tuple vals)) else True)"



section \<open>The reports under one interface\<close>

text \<open>
  The filter selections of the sidebar, as app.py passes them to the query functions
  (\<open>filters_for_analytics\<close>), and the fourteen filtered reports as one function from the
  selections to a table whose rows are the grouping key (the values of the \<open>GROUP BY\<close>
  columns; the whole row of the ungrouped contact list) and the aggregate.
\<close>

record selection =
  sel_cities :: "string list option"
  sel_provider_types :: "string list option"
  sel_food_types :: "string list option"
  sel_meal_types :: "string list option"
  sel_claim_statuses :: "string list option"

datatype report =
    Providers_per_city | Receivers_per_city | Top_provider_types | Provider_contacts
  | Top_receivers | City_highest_listings | Common_food_types | Claims_per_food
  | Top_providers_successful_claims | Claim_status_distribution | Avg_quantity_per_receiver
  | Most_claimed_meal_type | Total_quantity_per_provider | Cities_with_most_claims

datatype aggregate = Count nat | Total "int option" | Average rat | No_aggregate

type_synonym result_row = "sql_text list \<times> aggregate"

definition counted :: "(sql_text \<times> nat) list \<Rightarrow> result_row list" where
  "counted t = map (\<lambda>kv. ([fst kv], Count (snd kv))) t"

fun run_report :: "report \<Rightarrow> store \<Rightarrow> selection \<Rightarrow> sql_error + result_row list" where
  "run_report Providers_per_city st f =
     on_rows counted (providers_per_city st (sel_cities f) (sel_provider_types f))"
| "run_report Receivers_per_city st f =
     on_rows counted (receivers_per_city st (sel_cities f))"
| "run_report Top_provider_types st f =
     on_rows counted (top_provider_types st (sel_cities f))"
| "run_report Provider_contacts st f =
     on_rows (map (\<lambda>row. ([fst row, fst (snd row), snd (snd row)], No_aggregate)))
       (provider_contacts st (sel_cities f))"
| "run_report Top_receivers st f =
     on_rows (map (\<lambda>kv. ([fst (fst kv), snd (fst kv)], Count (snd kv))))
       (top_receivers st (sel_cities f) (sel_claim_statuses f))"
| "run_report City_highest_listings st f =
     on_rows counted
       (city_highest_listings st (sel_cities f) (sel_provider_types f) (sel_food_types f) (sel_meal_types f))"
| "run_report Common_food_types st f =
     on_rows counted (common_food_types st (sel_cities f))"
| "run_report Claims_per_food st f =
     on_rows counted (claims_per_food st (sel_cities f) (sel_claim_statuses f))"
| "run_report Top_providers_successful_claims st f =
     on_rows counted (top_providers_successful_claims st (sel_cities f))"
| "run_report Claim_status_distribution st f =
     on_rows counted (claim_status_distribution st (sel_cities f))"
| "run_report Avg_quantity_per_receiver st f =
     on_rows (map (\<lambda>kv. ([fst kv], Average (snd kv)))) (avg_quantity_per_receiver st (sel_cities f))"
| "run_report Most_claimed_meal_type st f =
     on_rows counted (most_claimed_meal_type st (sel_cities f))"
| "run_report Total_quantity_per_provider st f =
     on_rows (map (\<lambda>kv. ([fst kv], Total (snd kv)))) (total_quantity_per_provider st (sel_cities f))"
| "run_report Cities_with_most_claims st f =
     on_rows counted (cities_with_most_claims st (sel_cities f))"

text \<open>The position, in the grouping key, of the city column the city filter is bound to,
  for the reports whose key contains it.\<close>

fun city_column :: "report \<Rightarrow> nat option" where
  "city_column Providers_per_city = Some 0"
| "city_column Receivers_per_city = Some 0"
| "city_column Provider_contacts = Some 1"
| "city_column Top_receivers = Some 1"
| "city_column City_highest_listings = Some 0"
| "city_column Cities_with_most_claims = Some 0"
| "city_column rep = None"

text \<open>The rows of a table whose group is the city \<open>X\<close>.\<close>

definition of_city :: "nat \<Rightarrow> string \<Rightarrow> result_row list \<Rightarrow> result_row set" where
  "of_city i X t = {row \<in> set t. i < length (fst row) \<and> fst row ! i = Some X}"


section \<open>Example inputs\<close>

text \<open>The five dimensions of the dashboard on the join path of food listings, claims and
  receivers: two cities, no provider type, one food type, an empty meal-type selection and
  one claim status.\<close>

definition example_columns :: "((food_listing \<times> claim) \<times> receiver) columns" where
  "example_columns =
     join_columns
       (join_columns (aliased ''f'' food_listings_columns) (aliased ''c'' claims_columns))
       (aliased ''r'' receivers_columns)"

definition example_dimensions :: "dimension list" where
  "example_dimensions =
     [(''r.City'', Some [''Delhi'', ''Pune''], ''cities''),
      (''f.Provider_Type'', None, ''ptypes''),
      (''f.Food_Type'', Some [''Vegan''], ''ftypes''),
      (''f.Meal_Type'', Some [], ''mtypes''),
      (''c.Status'', Some [''Completed''], ''cstats'')]"


section \<open>Partitions of the city dimension\<close>

text \<open>
  A list of city sets (each the argument of one filtered call) splits the values of a city
  column when the sets are non-empty and pairwise disjoint, and every value of the column
  is a city of one of the sets; a \<open>NULL\<close> in the column belongs to none.
\<close>

fun disjoint_cells :: "string list list \<Rightarrow> bool" where
  "disjoint_cells [] = True"
| "disjoint_cells (c # cs) = (list_all (\<lambda>d. set c \<inter> set d = {}) cs \<and> disjoint_cells cs)"

definition covered :: "string list list \<Rightarrow> sql_text \<Rightarrow> bool" where
  "covered cells v = (case v of None \<Rightarrow> False | Some s \<Rightarrow> list_ex (\<lambda>cell. s \<in> set cell) cells)"

definition city_partition :: "string list list \<Rightarrow> sql_text list \<Rightarrow> bool" where
  "city_partition cells column =
     (list_all (\<lambda>cell. cell \<noteq> []) cells \<and> disjoint_cells cells \<and> list_all (covered cells) column)"

definition in_cell :: "('r \<Rightarrow> sql_text) \<Rightarrow> string list \<Rightarrow> 'r \<Rightarrow> bool" where
  "in_cell city cell r = (case city r of None \<Rightarrow> False | Some s \<Rightarrow> s \<in> set cell)"

text \<open>Referential integrity of claims towards receivers (section 3 of the specification):
  receiver keys are unique and every claim names an existing receiver.\<close>

definition claims_reference_receivers :: "store \<Rightarrow> bool" where
  "claims_reference_receivers st =
     (distinct (map Receiver_ID (receivers st))
      \<and> list_all (\<lambda>c. c_Receiver_ID c \<in> set (map Receiver_ID (receivers st))) (claims st))"

text \<open>The city of the receiver of each claim: the city column of the rows of
  \<^verbatim>\<open>claims c JOIN receivers r ON c.Receiver_ID = r.Receiver_ID\<close>, which the claim count binds
  the city filter to.\<close>

definition claimed_receiver_cities :: "store \<Rightarrow> sql_text list" where
  "claimed_receiver_cities st =
     map (\<lambda>row. r_City (snd row))
       (inner_join (claims st) (receivers st) (\<lambda>c r. c_Receiver_ID c = Receiver_ID r))"

text \<open>The sum of the values of several KPI calls (an error of any call is the result).\<close>

fun total_of :: "(sql_error + 'a::monoid_add) list \<Rightarrow> sql_error + 'a" where
  "total_of [] = Inr 0"
| "total_of (x # xs) =
     (case x of
        Inl e \<Rightarrow> Inl e
      | Inr n \<Rightarrow> (case total_of xs of Inl e \<Rightarrow> Inl e | Inr m \<Rightarrow> Inr (n + m)))"


text \<open>A store in which one provider has no city, and a store with every city known.\<close>

definition null_city_store :: store where
  "null_city_store =
     \<lparr>providers =
        [\<lparr>Provider_ID = 1, p_Name = Some ''A'', p_Type = Some ''Restaurant'', p_City = Some ''Delhi'',
          p_Contact = None, p_Address = None\<rparr>,
         \<lparr>Provider_ID = 2, p_Name = Some ''B'', p_Type = Some ''Supermarket'', p_City = None,
          p_Contact = None, p_Address = None\<rparr>],
      receivers = [], food_listings = [], claims = []\<rparr>"

definition example_store :: store where
  "example_store =
     \<lparr>providers =
        [\<lparr>Provider_ID = 1, p_Name = Some ''A'', p_Type = Some ''Restaurant'', p_City = Some ''Delhi'',
          p_Contact = Some ''011'', p_Address = None\<rparr>,
         \<lparr>Provider_ID = 2, p_Name = Some ''B'', p_Type = Some ''Supermarket'', p_City = Some ''Pune'',
          p_Contact = None, p_Address = None\<rparr>],
      receivers =
        [\<lparr>Receiver_ID = 5, r_Name = Some ''N'', r_Type = Some ''NGO'', r_City = Some ''Delhi'',
          r_Contact = None\<rparr>,
         \<lparr>Receiver_ID = 6, r_Name = Some ''S'', r_Type = Some ''Shelter'', r_City = Some ''Pune'',
          r_Contact = None\<rparr>],
      food_listings =
        [\<lparr>Food_ID = 10, Food_Name = Some ''Rice'', Quantity = 10, Expiry_Date = Some ''2024-01-01'',
          f_Provider_ID = 1, Provider_Type = Some ''Restaurant'', Location = Some ''Delhi'',
          Food_Type = Some ''Vegetarian'', Meal_Type = Some ''Lunch''\<rparr>,
         \<lparr>Food_ID = 11, Food_Name = Some ''Bread'', Quantity = 4, Expiry_Date = Some ''2024-01-02'',
          f_Provider_ID = 2, Provider_Type = Some ''Supermarket'', Location = Some ''Pune'',
          Food_Type = Some ''Vegan'', Meal_Type = Some ''Breakfast''\<rparr>],
      claims =
        [\<lparr>Claim_ID = 1, c_Food_ID = 10, c_Receiver_ID = 5, Status = Some ''Completed'',
          Timestamp = Some ''2024-01-01 10:00:00''\<rparr>,
         \<lparr>Claim_ID = 2, c_Food_ID = 10, c_Receiver_ID = 6, Status = Some ''Pending'',
          Timestamp = Some ''2024-01-01 11:00:00''\<rparr>,
         \<lparr>Claim_ID = 3, c_Food_ID = 11, c_Receiver_ID = 6, Status = Some ''Completed'',
          Timestamp = Some ''2024-01-02 09:00:00''\<rparr>]\<rparr>"

text \<open>
  The city options of the sidebar (app.py, lines 103-106): the cities of the providers and
  the locations of the food listings, without missing values. The cities of the receivers
  are not among the sources.
  \<^verbatim>\<open>
  all_cities = sorted(set(
      providers_df["City"].dropna().unique().tolist()
      + food_df["Location"].dropna().unique().tolist()))
  \<close>
\<close>

definition all_cities :: "store \<Rightarrow> string set" where
  "all_cities st =
     set (concat (map (\<lambda>v. case v of None \<Rightarrow> [] | Some s \<Rightarrow> [s])
            (map p_City (providers st) @ map Location (food_listings st))))"

text \<open>A store with a receiver in a city where there is no provider and no listing.\<close>

definition far_receiver_store :: store where
  "far_receiver_store =
     \<lparr>providers =
        [\<lparr>Provider_ID = 1, p_Name = Some ''A'', p_Type = Some ''Restaurant'', p_City = Some ''Delhi'',
          p_Contact = None, p_Address = None\<rparr>],
      receivers =
        [\<lparr>Receiver_ID = 5, r_Name = Some ''N'', r_Type = Some ''NGO'', r_City = Some ''Agra'',
          r_Contact = None\<rparr>],
      food_listings = [], claims = []\<rparr>"

definition example_cells :: "string list list" where
  "example_cells = [[''Delhi''], [''Pune'', ''Agra'']]"

definition empty_store :: store where
  "empty_store = \<lparr>providers = [], receivers = [], food_listings = [], claims = []\<rparr>"


section \<open>The dashboard session (app.py)\<close>

text \<open>
  \<^verbatim>\<open>
  @st.cache_data(show_spinner=False)
  def load_table(sql: str, params=None):
      conn = get_connection()
      try:
          df = pd.read_sql(sql, conn, params=params)
      finally:
          conn.close()
      return df
  \<close>
  \<open>st.cache_data\<close> memoises the function on its arguments; no expiry is configured, so an
  entry lives across the reruns of the script. app.py calls \<open>load_table\<close> with seven
  statements, never with parameters: the four snapshots loaded at the top of the script
  (lines 72-94) and the three next-key queries of the create forms
  (\<^verbatim>\<open>SELECT COALESCE(MAX(Provider_ID),0)+1 AS next_id FROM providers\<close>, and the same for
  receivers and claims).
\<close>

datatype query =
    Q_providers | Q_receivers | Q_food_listings | Q_claims
  | Q_next_provider_id | Q_next_receiver_id | Q_next_claim_id

datatype frame =
    Provider_rows "provider list"
  | Receiver_rows "receiver list"
  | Food_rows "food_listing list"
  | Claim_rows "claim list"
  | Scalar_rows "int list"

text \<open>\<open>MAX\<close> is \<open>NULL\<close> over no rows.\<close>

fun sql_max :: "int list \<Rightarrow> int option" where
  "sql_max [] = None"
| "sql_max (x # xs) = (case sql_max xs of None \<Rightarrow> Some x | Some m \<Rightarrow> Some (max x m))"

fun read_sql :: "query \<Rightarrow> store \<Rightarrow> frame" where
  "read_sql Q_providers st = Provider_rows (providers st)"
| "read_sql Q_receivers st = Receiver_rows (receivers st)"
| "read_sql Q_food_listings st = Food_rows (food_listings st)"
| "read_sql Q_claims st = Claim_rows (claims st)"
| "read_sql Q_next_provider_id st = Scalar_rows [coalesce (sql_max (map Provider_ID (providers st))) 0 + 1]"
| "read_sql Q_next_receiver_id st = Scalar_rows [coalesce (sql_max (map Receiver_ID (receivers st))) 0 + 1]"
| "read_sql Q_next_claim_id st = Scalar_rows [coalesce (sql_max (map Claim_ID (claims st))) 0 + 1]"

record app_state =
  db :: store
  cache :: "query \<rightharpoonup> frame"

definition load_table :: "query \<Rightarrow> app_state \<Rightarrow> frame \<times> app_state" where
  "load_table q s =
     (case cache s q of
        Some df \<Rightarrow> (df, s)
      | None \<Rightarrow> (let df = read_sql q (db s) in (df, s\<lparr>cache := (cache s)(q \<mapsto> df)\<rparr>)))"

text \<open>\<^verbatim>\<open>int(next_id_df.iloc[0, 0]) if not next_id_df.empty else 1\<close>\<close>

fun next_id_of :: "frame \<Rightarrow> int" where
  "next_id_of (Scalar_rows (x # xs)) = x"
| "next_id_of df = 1"

text \<open>The key columns of the snapshots, as in \<^verbatim>\<open>providers_df["Provider_ID"].values\<close>. The
  cache is filled by \<open>load_table\<close> only, so a snapshot always holds rows of its own table;
  for any other frame the model gives no keys.\<close>

fun provider_ids :: "frame \<Rightarrow> int list" where
  "provider_ids (Provider_rows ps) = map Provider_ID ps"
| "provider_ids df = []"

fun receiver_ids :: "frame \<Rightarrow> int list" where
  "receiver_ids (Receiver_rows rs) = map Receiver_ID rs"
| "receiver_ids df = []"

fun food_ids :: "frame \<Rightarrow> int list" where
  "food_ids (Food_rows fs) = map Food_ID fs"
| "food_ids df = []"

text \<open>
  \<open>str.strip()\<close> removes leading and trailing white space. A character of the model is a
  code point below 256; of these, \<open>str.isspace\<close> holds for the tab, the line feed, the
  vertical tab, the form feed and the carriage return (9 to 13), the four separators 28 to
  31, the blank (32), the next-line character U+0085 and the no-break space U+00A0.
\<close>

definition is_space :: "char \<Rightarrow> bool" where
  "is_space c =
     (let n = (of_char c :: nat)
      in (9 \<le> n \<and> n \<le> 13) \<or> (28 \<le> n \<and> n \<le> 32) \<or> n = 0x85 \<or> n = 0xA0)"

definition strip :: "string \<Rightarrow> string" where
  "strip s = rev (dropWhile is_space (rev (dropWhile is_space s)))"

text \<open>
  The statements the forms of the CRUD tab send, with their bound values in the order of
  the column lists:
  \<^item> \<^verbatim>\<open>INSERT INTO providers (Provider_ID, Name, Type, Address, City, Contact)\<close>
  \<^item> \<^verbatim>\<open>INSERT INTO receivers (Receiver_ID, Name, Type, City, Contact)\<close>
  \<^item> \<^verbatim>\<open>INSERT INTO food_listings (Food_Name, Quantity, Expiry_Date, Provider_ID,
    Provider_Type, Location, Food_Type, Meal_Type)\<close>, which lists no \<open>Food_ID\<close>
  \<^item> \<^verbatim>\<open>INSERT INTO claims (Claim_ID, Food_ID, Receiver_ID, Status, Timestamp)\<close>
  \<^item> \<^verbatim>\<open>UPDATE claims SET Status=%s WHERE Claim_ID=%s\<close>
\<close>

datatype statement =
    Insert_provider int string string string string string
  | Insert_receiver int string string string string
  | Insert_food_listing string int string int string string string string
  | Insert_claim int int int string string
  | Update_claim_status string int

text \<open>The value a statement lists for the primary key of its table, if it lists one.\<close>

fun assigned_key :: "statement \<Rightarrow> int option" where
  "assigned_key (Insert_provider pid name ptype address city contact) = Some pid"
| "assigned_key (Insert_receiver rid name rtype city contact) = Some rid"
| "assigned_key (Insert_claim cid fid rid status ts) = Some cid"
| "assigned_key (Insert_food_listing name qty expiry pid ptype location ftype mtype) = None"
| "assigned_key (Update_claim_status status cid) = None"

text \<open>
  The store's execution of these statements. Modelled from the spec: the constraints of the
  tables (they are declared outside the source files at hand): primary and foreign keys
  are enforced (sections 1 and 3 of the specification). An insert that lists no key
  receives the key the store generates, \<open>gen\<close>, a parameter of the model. An update of a
  key that no row has changes nothing and succeeds.
\<close>

datatype store_error = Duplicate_key int | Foreign_key_violation

fun execute :: "(store \<Rightarrow> int) \<Rightarrow> statement \<Rightarrow> store \<Rightarrow> store_error + store" where
  "execute gen (Insert_provider pid name ptype address city contact) st =
     (if pid \<in> set (map Provider_ID (providers st)) then Inl (Duplicate_key pid)
      else Inr (st\<lparr>providers := providers st @
              [\<lparr>Provider_ID = pid, p_Name = Some name, p_Type = Some ptype, p_City = Some city,
                p_Contact = Some contact, p_Address = Some address\<rparr>]\<rparr>))"
| "execute gen (Insert_receiver rid name rtype city contact) st =
     (if rid \<in> set (map Receiver_ID (receivers st)) then Inl (Duplicate_key rid)
      else Inr (st\<lparr>receivers := receivers st @
              [\<lparr>Receiver_ID = rid, r_Name = Some name, r_Type = Some rtype, r_City = Some city,
                r_Contact = Some contact\<rparr>]\<rparr>))"
| "execute gen (Insert_food_listing name qty expiry pid ptype location ftype mtype) st =
     (if gen st \<in> set (map Food_ID (food_listings st)) then Inl (Duplicate_key (gen st))
      else if pid \<notin> set (map Provider_ID (providers st)) then Inl Foreign_key_violation
      else Inr (st\<lparr>food_listings := food_listings st @
              [\<lparr>Food_ID = gen st, Food_Name = Some name, Quantity = qty,
                Expiry_Date = Some expiry, f_Provider_ID = pid, Provider_Type = Some ptype,
                Location = Some location, Food_Type = Some ftype, Meal_Type = Some mtype\<rparr>]\<rparr>))"
| "execute gen (Insert_claim cid fid rid status ts) st =
     (if cid \<in> set (map Claim_ID (claims st)) then Inl (Duplicate_key cid)
      else if fid \<notin> set (map Food_ID (food_listings st)) then Inl Foreign_key_violation
      else if rid \<notin> set (map Receiver_ID (receivers st)) then Inl Foreign_key_violation
      else Inr (st\<lparr>claims := claims st @
              [\<lparr>Claim_ID = cid, c_Food_ID = fid, c_Receiver_ID = rid, Status = Some status,
                Timestamp = Some ts\<rparr>]\<rparr>))"
| "execute gen (Update_claim_status new_status cid) st =
     Inr (st\<lparr>claims := map (\<lambda>c. if Claim_ID c = cid then c\<lparr>Status := Some new_status\<rparr> else c)
                          (claims st)\<rparr>)"

text \<open>
  What a form submission shows, and the statement it sent, if any. Each statement runs in
  \<^verbatim>\<open>try: cur.execute(...); conn.commit() except Exception as e: conn.rollback(); st.error(...)\<close>:
  on an error of the store nothing is changed and the error is shown.
\<close>

datatype message =
    Invalid_provider_id | Empty_food_name_or_location | Empty_name_or_city
  | Invalid_food_id | Invalid_receiver_id

datatype outcome = Rejected message | Failed store_error | Done

record response =
  issued :: "statement option"
  outcome :: outcome

definition rejected :: "message \<Rightarrow> response" where
  "rejected m = \<lparr>issued = None, outcome = Rejected m\<rparr>"

definition submit :: "(store \<Rightarrow> int) \<Rightarrow> statement \<Rightarrow> app_state \<Rightarrow> response \<times> app_state" where
  "submit gen stmt s =
     (case execute gen stmt (db s) of
        Inl e \<Rightarrow> (\<lparr>issued = Some stmt, outcome = Failed e\<rparr>, s)
      | Inr st \<Rightarrow> (\<lparr>issued = Some stmt, outcome = Done\<rparr>, s\<lparr>db := st\<rparr>))"

text \<open>
  The submitted forms of the CRUD tab (app.py, lines 534-848) that the claims are about,
  with the form fields in the order of the widgets: adding a food listing (food name,
  quantity, expiry date, provider id, location, provider type, food type, meal type), a
  provider (name, type, address, city, contact), a receiver (name, type, city, contact), a
  claim (food id, receiver id, status, formatted timestamp), and updating a claim (claim
  id, new status).
\<close>

datatype action =
    Add_food string int string int string string string string
  | Add_provider string string string string string
  | Add_receiver string string string string
  | Add_claim int int string string
  | Update_claim int string

fun crud ::
  "(store \<Rightarrow> int) \<Rightarrow> frame \<Rightarrow> frame \<Rightarrow> frame \<Rightarrow> action \<Rightarrow> app_state \<Rightarrow> response \<times> app_state" where
  "crud gen providers_df receivers_df food_df
       (Add_food food_name qty expiry provider_id location provider_type food_type meal_type) s =
     (if provider_id \<notin> set (provider_ids providers_df)
      then (rejected Invalid_provider_id, s)
      else if strip food_name = [] \<or> strip location = []
      then (rejected Empty_food_name_or_location, s)
      else submit gen
             (Insert_food_listing (strip food_name) qty expiry provider_id provider_type
                (strip location) food_type meal_type) s)"
| "crud gen providers_df receivers_df food_df (Add_provider name ptype address city contact) s =
     (if strip name = [] \<or> strip city = []
      then (rejected Empty_name_or_city, s)
      else (let (next_id_df, s1) = load_table Q_next_provider_id s;
                next_id = next_id_of next_id_df
            in submit gen
                 (Insert_provider next_id (strip name) ptype (strip address) (strip city)
                    (strip contact)) s1))"
| "crud gen providers_df receivers_df food_df (Add_receiver name rtype city contact) s =
     (if strip name = [] \<or> strip city = []
      then (rejected Empty_name_or_city, s)
      else (let (next_id_df, s1) = load_table Q_next_receiver_id s;
                next_id = next_id_of next_id_df
            in submit gen
                 (Insert_receiver next_id (strip name) rtype (strip city) (strip contact)) s1))"
| "crud gen providers_df receivers_df food_df (Add_claim food_id receiver_id status timestamp) s =
     (if food_id \<notin> set (food_ids food_df)
      then (rejected Invalid_food_id, s)
      else if receiver_id \<notin> set (receiver_ids receivers_df)
      then (rejected Invalid_receiver_id, s)
      else (let (next_id_df, s1) = load_table Q_next_claim_id s;
                next_id = next_id_of next_id_df
            in submit gen (Insert_claim next_id food_id receiver_id status timestamp) s1))"
| "crud gen providers_df receivers_df food_df (Update_claim cid new_status) s =
     submit gen (Update_claim_status new_status cid) s"

text \<open>One run of the script on a submitted form: the snapshots are loaded through the
  memoised loader (lines 72-94), then the form is handled.\<close>

definition rerun :: "(store \<Rightarrow> int) \<Rightarrow> action \<Rightarrow> app_state \<Rightarrow> response \<times> app_state" where
  "rerun gen a s =
     (let (providers_df, s1) = load_table Q_providers s;
          (receivers_df, s2) = load_table Q_receivers s1;
          (food_df, s3) = load_table Q_food_listings s2;
          (claims_df, s4) = load_table Q_claims s3
      in crud gen providers_df receivers_df food_df a s4)"

text \<open>The key the specification expects a create to assign: the largest existing key plus
  one, or 1 for an empty table.\<close>

definition next_key :: "int list \<Rightarrow> int" where
  "next_key ids = (if ids = [] then 1 else Max (set ids) + 1)"

text \<open>A key generator for the store: the next key after the largest.\<close>

definition next_food_id :: "store \<Rightarrow> int" where
  "next_food_id st = coalesce (sql_max (map Food_ID (food_listings st))) 0 + 1"

definition fresh :: "store \<Rightarrow> app_state" where
  "fresh st = \<lparr>db = st, cache = Map.empty\<rparr>"

text \<open>The state after the four snapshots have been loaded.\<close>

definition loaded :: "app_state \<Rightarrow> app_state" where
  "loaded s =
     snd (load_table Q_claims (snd (load_table Q_food_listings
       (snd (load_table Q_receivers (snd (load_table Q_providers s)))))))"

text \<open>A session that starts on an empty store and adds a first provider.\<close>

definition after_first_provider :: app_state where
  "after_first_provider =
     snd (rerun next_food_id (Add_provider ''A'' ''Restaurant'' ''Road 1'' ''Delhi'' ''11'')
            (fresh empty_store))"

text \<open>A store with a receiver that has no city and no claim.\<close>

definition idle_receiver_store :: store where
  "idle_receiver_store =
     example_store\<lparr>receivers := receivers example_store @
        [\<lparr>Receiver_ID = 7, r_Name = Some ''I'', r_Type = Some ''Individual'', r_City = None,
          r_Contact = None\<rparr>]\<rparr>"



section \<open>Facts about the tokeniser and the parser\<close>

lemma tokens_from_nospace:
  "CHR '' '' \<notin> set w \<Longrightarrow> tokens_from acc (w @ rest) = tokens_from (acc @ w) rest"
  by (induction w arbitrary: acc) auto

lemma tokens_from_word:
  "token w \<Longrightarrow> tokens_from [] (w @ CHR '' '' # rest) = w # tokens_from [] rest"
  using tokens_from_nospace [of w "[]" "CHR '' '' # rest"] by (simp add: token_def)

lemma tokens_from_last:
  "token w \<Longrightarrow> tokens_from [] w = [w]"
  using tokens_from_nospace [of w "[]" "[]"] by (simp add: token_def)

lemma placeholder_name: "placeholder (''%('' @ name @ '')s'') = Some name"
  by (simp add: placeholder_def)

lemma tokens_three:
  "token a \<Longrightarrow> token b \<Longrightarrow> token c \<Longrightarrow>
   tokens_from [] (a @ CHR '' '' # b @ CHR '' '' # c) = [a, b, c]"
  by (simp add: tokens_from_word tokens_from_last)

lemma tokens_four:
  "token a \<Longrightarrow> token b \<Longrightarrow> token c \<Longrightarrow> token d \<Longrightarrow>
   tokens_from [] (a @ CHR '' '' # b @ CHR '' '' # c @ CHR '' '' # d @ CHR '' '' # rest)
     = a # b # c # d # tokens_from [] rest"
  by (simp add: tokens_from_word)

lemma token_placeholder: "CHR '' '' \<notin> set name \<Longrightarrow> token (''%('' @ name @ '')s'')"
  by (simp add: token_def)

lemma tokens_clause_last:
  assumes "token col" "CHR '' '' \<notin> set name"
  shows "tokens_from [] (col @ '' IN %('' @ name @ '')s'') = [col, ''IN'', ''%('' @ name @ '')s'']"
proof -
  have e: "col @ '' IN %('' @ name @ '')s'' = col @ CHR '' '' # ''IN'' @ CHR '' '' # (''%('' @ name @ '')s'')"
    by simp
  show ?thesis
    unfolding e by (rule tokens_three) (use assms in \<open>simp_all add: token_def\<close>)
qed

lemma tokens_clause_more:
  assumes "token col" "CHR '' '' \<notin> set name"
  shows "tokens_from [] (col @ '' IN %('' @ name @ '')s'' @ '' AND '' @ rest)
           = col # ''IN'' # (''%('' @ name @ '')s'') # ''AND'' # tokens_from [] rest"
proof -
  have e: "col @ '' IN %('' @ name @ '')s'' @ '' AND '' @ rest
             = col @ CHR '' '' # ''IN'' @ CHR '' '' # (''%('' @ name @ '')s'') @ CHR '' '' # ''AND'' @ CHR '' '' # rest"
    by simp
  show ?thesis
    unfolding e by (rule tokens_four) (use assms in \<open>simp_all add: token_def\<close>)
qed

lemma parse_conds_single:
  "placeholder ph = Some name \<Longrightarrow> parse_conds [col, ''IN'', ph] = Some [In_param col name]"
  by (simp add: parse_atom_def)

lemma parse_conds_more:
  "placeholder ph = Some name \<Longrightarrow>
   parse_conds (col # ''IN'' # ph # ''AND'' # rest) = map_option (Cons (In_param col name)) (parse_conds rest)"
  by (simp add: parse_atom_def)

lemma parse_joined:
  "ds \<noteq> [] \<Longrightarrow> list_all dim_ok ds \<Longrightarrow>
   parse_conds (tokens_from [] (join_str '' AND '' (map clause_text ds))) = Some (map cond_of ds)"
proof (induction ds rule: induct_list012)
  case 1
  then show ?case by simp
next
  case (2 d)
  obtain col vals name where d: "d = (col, vals, name)" by (cases d)
  from 2 d have ok: "token col" "CHR '' '' \<notin> set name" by (simp_all add: dim_ok_def)
  have j: "join_str '' AND '' (map clause_text [d]) = col @ '' IN %('' @ name @ '')s''"
    by (simp add: d clause_text_def)
  show ?case
    unfolding j tokens_clause_last [OF ok] parse_conds_single [OF placeholder_name]
    by (simp add: d cond_of_def)
next
  case (3 d e ds)
  obtain col vals name where d: "d = (col, vals, name)" by (cases d)
  from 3 have "dim_ok d" and rest: "list_all dim_ok (e # ds)" by simp_all
  then have ok: "token col" "CHR '' '' \<notin> set name" by (simp_all add: dim_ok_def d)
  have j: "join_str '' AND '' (map clause_text (d # e # ds))
             = col @ '' IN %('' @ name @ '')s'' @ '' AND '' @ join_str '' AND '' (map clause_text (e # ds))"
    by (simp add: d clause_text_def)
  have ih: "parse_conds (tokens_from [] (join_str '' AND '' (map clause_text (e # ds)))) = Some (map cond_of (e # ds))"
    using 3(2) rest by simp
  show ?case
    unfolding j tokens_clause_more [OF ok] parse_conds_more [OF placeholder_name] ih
    by (simp add: d cond_of_def)
qed

lemma parse_where_joined:
  assumes "list_all dim_ok ds"
  shows "parse_where (and_join (map clause_text ds)) = Some (map cond_of ds)"
proof (cases "ds = []")
  case True
  then show ?thesis by (simp add: and_join_def parse_where_def tokens_def)
next
  case False
  have ne: "filter (\<lambda>c. c \<noteq> []) (map clause_text ds) = map clause_text ds"
    by (induction ds) (auto simp: clause_text_def)
  have t: "tokens ('' WHERE '' @ rest) = ''WHERE'' # tokens_from [] rest" for rest
    by (simp add: tokens_def)
  show ?thesis
    using False assms
    by (simp add: and_join_def ne parse_where_def t parse_joined del: append.simps list.map)
qed


lemma in_clauses_conds:
  "filter (\<lambda>c. c \<noteq> []) (fst (in_clauses ds ps)) = map clause_text (active ds)"
  by (induction ds arbitrary: ps)
     (auto simp: in_clause_def active_def clause_text_def case_prod_beta)

lemma in_clauses_other:
  "name \<notin> set (map (\<lambda>(col, vals, name). name) ds) \<Longrightarrow> snd (in_clauses ds ps) name = ps name"
  by (induction ds arbitrary: ps) (auto simp: in_clause_def case_prod_beta)

lemma in_clauses_params:
  "distinct (map (\<lambda>(col, vals, name). name) ds) \<Longrightarrow> (col, vals, name) \<in> set ds \<Longrightarrow>
   snd (in_clauses ds ps) name = (if truthy vals then Some (tuple vals) else ps name)"
proof (induction ds arbitrary: ps)
  case Nil
  then show ?case by simp
next
  case (Cons d ds)
  obtain c v n where d: "d = (c, v, n)" by (cases d)
  show ?case
  proof (cases "(col, vals, name) = d")
    case True
    with Cons.prems d have "name \<notin> set (map (\<lambda>(col, vals, name). name) ds)" by auto
    from in_clauses_other [OF this] True d show ?thesis
      by (auto simp: in_clause_def case_prod_beta)
  next
    case False
    with Cons.prems have m: "(col, vals, name) \<in> set ds"
      and dd: "distinct (map (\<lambda>(col, vals, name). name) ds)" by auto
    from Cons.prems d m have "n \<noteq> name" by force
    with Cons.IH [OF dd m] d show ?thesis
      by (auto simp: in_clause_def case_prod_beta)
  qed
qed

lemma where_clause_text:
  "fst (where_clause ds) = and_join (map clause_text (active ds))"
proof -
  have "and_join cs = and_join (filter (\<lambda>c. c \<noteq> []) cs)" for cs
    by (simp add: and_join_def)
  from this [of "fst (in_clauses ds Map.empty)"] show ?thesis
    by (simp add: where_clause_def in_clauses_conds case_prod_beta)
qed

lemma where_clause_params:
  "distinct (map (\<lambda>(col, vals, name). name) ds) \<Longrightarrow> (col, vals, name) \<in> set ds \<Longrightarrow>
   snd (where_clause ds) name = (if truthy vals then Some (tuple vals) else None)"
  using in_clauses_params [of ds col vals name Map.empty]
  by (simp add: where_clause_def case_prod_beta)

lemma first_error_none:
  "list_all (\<lambda>k. check_cond cols ps k = None) ks \<Longrightarrow> first_error cols ps ks = None"
  by (induction ks) auto

lemma active_checked:
  assumes "well_formed cols ds"
  shows "list_all (\<lambda>k. check_cond cols (snd (where_clause ds)) k = None) (map cond_of (active ds))"
proof -
  have "check_cond cols (snd (where_clause ds)) (cond_of d) = None" if "d \<in> set (active ds)" for d
  proof -
    obtain col vals name where d: "d = (col, vals, name)" by (cases d)
    from that d have m: "(col, vals, name) \<in> set ds" and t: "truthy vals"
      by (auto simp: active_def)
    from assms m have c: "cols col \<noteq> None"
      and dist: "distinct (map (\<lambda>(col, vals, name). name) ds)"
      by (auto simp: well_formed_def list_all_iff)
    from t have "tuple vals \<noteq> []" by (auto simp: truthy_def tuple_def split: option.splits)
    with where_clause_params [OF dist m] t c show ?thesis
      by (auto simp: d cond_of_def)
  qed
  then show ?thesis by (simp add: list_all_iff)
qed

lemma active_holds:
  assumes "well_formed cols ds"
  shows "list_all (cond_holds cols (snd (where_clause ds)) r) (map cond_of (active ds)) = matches cols ds r"
proof -
  have "cond_holds cols (snd (where_clause ds)) r (cond_of d) = dimension_holds cols r d"
    if "d \<in> set (active ds)" for d
  proof -
    obtain col vals name where d: "d = (col, vals, name)" by (cases d)
    from that d have m: "(col, vals, name) \<in> set ds" and t: "truthy vals"
      by (auto simp: active_def)
    from assms have dist: "distinct (map (\<lambda>(col, vals, name). name) ds)"
      by (simp add: well_formed_def)
    from where_clause_params [OF dist m] t show ?thesis
      by (simp add: d cond_of_def dimension_holds_def split: option.splits)
  qed
  then show ?thesis
    by (simp add: matches_def list_all_iff)
qed

lemma well_formed_dim_ok: "well_formed cols ds \<Longrightarrow> list_all dim_ok (active ds)"
  by (auto simp: well_formed_def dim_ok_def token_def active_def list_all_iff)

lemma compile_where_clause:
  assumes "well_formed cols ds"
  shows "compile_where cols (fst (where_clause ds)) (snd (where_clause ds)) = Inr (matches cols ds)"
proof -
  have p: "parse_where (fst (where_clause ds)) = Some (map cond_of (active ds))"
    unfolding where_clause_text by (rule parse_where_joined) (rule well_formed_dim_ok [OF assms])
  have e: "first_error cols (snd (where_clause ds)) (map cond_of (active ds)) = None"
    by (rule first_error_none) (rule active_checked [OF assms])
  have h: "(\<lambda>r. list_all (cond_holds cols (snd (where_clause ds)) r) (map cond_of (active ds))) = matches cols ds"
    by (rule ext) (rule active_holds [OF assms])
  show ?thesis
    by (simp add: compile_where_def p e h)
qed

lemma matches_iff:
  "matches cols ds r \<longleftrightarrow>
     (\<forall>(col, vals, name) \<in> set ds. truthy vals \<longrightarrow>
        (\<exists>acc s. cols col = Some acc \<and> acc r = Some s \<and> s \<in> set (tuple vals)))"
proof -
  have d: "dimension_holds cols r (col, vals, name) \<longleftrightarrow>
             (\<exists>acc s. cols col = Some acc \<and> acc r = Some s \<and> s \<in> set (tuple vals))"
    for col vals name
    by (cases "cols col"; cases "the (cols col) r") (simp_all add: dimension_holds_def)
  show ?thesis
    by (auto simp: matches_def active_def list_all_iff d) blast
qed


section \<open>Closed forms of the queries\<close>

lemma select_from_where_clause:
  "well_formed cols ds \<Longrightarrow>
   select_from cols (fst (where_clause ds)) (snd (where_clause ds)) rows = Inr (filter (matches cols ds) rows)"
  by (simp add: select_from_def compile_where_clause)

lemma matches_Nil: "matches cols [] r = True"
  by (simp add: matches_def active_def)

lemma matches_Cons:
  "cols col = Some acc \<Longrightarrow>
   matches cols ((col, vals, name) # ds) r = (selected (acc r) vals \<and> matches cols ds r)"
  by (simp add: matches_def active_def dimension_holds_def selected_def)

lemma append_clause_one:
  "and_join (fst (append_clause col vals name ([], Map.empty))) = fst (where_clause [(col, vals, name)])"
  "snd (append_clause col vals name ([], Map.empty)) = snd (where_clause [(col, vals, name)])"
  by (simp_all add: append_clause_def where_clause_def in_clause_def and_join_def)

lemma append_clause_two:
  "and_join (fst (append_clause col2 vals2 name2 (append_clause col1 vals1 name1 ([], Map.empty))))
     = fst (where_clause [(col1, vals1, name1), (col2, vals2, name2)])"
  "snd (append_clause col2 vals2 name2 (append_clause col1 vals1 name1 ([], Map.empty)))
     = snd (where_clause [(col1, vals1, name1), (col2, vals2, name2)])"
  by (simp_all add: append_clause_def where_clause_def in_clause_def and_join_def)

lemma count_providers_eq:
  "count_providers st cities provider_types =
     Inr (length (filter (\<lambda>p. selected (p_City p) cities \<and> selected (p_Type p) provider_types) (providers st)))"
proof -
  let ?ds = "[(''City'', cities, ''cities''), (''Type'', provider_types, ''ptypes'')]"
  have wf: "well_formed providers_columns ?ds"
    by (simp add: well_formed_def providers_columns_def)
  have m: "matches providers_columns ?ds = (\<lambda>p. selected (p_City p) cities \<and> selected (p_Type p) provider_types)"
    by (rule ext) (simp add: matches_Cons matches_Nil providers_columns_def)
  have "count_providers st cities provider_types =
          on_rows length (select_from providers_columns (fst (where_clause ?ds)) (snd (where_clause ?ds)) (providers st))"
    by (simp add: count_providers_def where_clause_def case_prod_beta Let_def)
  then show ?thesis
    by (simp add: select_from_where_clause [OF wf] m on_rows_def)
qed

lemma top_receivers_eq:
  "top_receivers st cities claim_statuses =
     Inr (order_desc snd
            (group_by (\<lambda>row. (r_Name (fst row), r_City (fst row))) length
               (filter (\<lambda>row. selected (r_City (fst row)) cities \<and> selected (Status (snd row)) claim_statuses)
                  (inner_join (receivers st) (claims st) (\<lambda>r c. Receiver_ID r = c_Receiver_ID c)))))"
proof -
  let ?ds = "[(''r.City'', cities, ''cities''), (''c.Status'', claim_statuses, ''cstats'')]"
  let ?cols = "join_columns (aliased ''r'' receivers_columns) (aliased ''c'' claims_columns)"
  have c: "?cols ''r.City'' = Some (\<lambda>row. r_City (fst row))" "?cols ''c.Status'' = Some (\<lambda>row. Status (snd row))"
    by (simp_all add: join_columns_def aliased_def receivers_columns_def claims_columns_def)
  have wf: "well_formed ?cols ?ds"
    by (simp add: well_formed_def c)
  have m: "matches ?cols ?ds = (\<lambda>row. selected (r_City (fst row)) cities \<and> selected (Status (snd row)) claim_statuses)"
    by (rule ext) (simp add: matches_Cons matches_Nil c)
  show ?thesis
    by (simp add: top_receivers_def case_prod_beta Let_def append_clause_two
          select_from_where_clause [OF wf] m on_rows_def)
qed

lemma top_providers_successful_claims_eq:
  "top_providers_successful_claims st cities =
     Inr (order_desc snd
            (group_by (\<lambda>row. p_Name (fst (fst row))) length
               (filter (\<lambda>row. Status (snd row) = Some ''Completed'' \<and> selected (p_City (fst (fst row))) cities)
                 (inner_join
                   (inner_join (providers st) (food_listings st) (\<lambda>p f. Provider_ID p = f_Provider_ID f))
                   (claims st) (\<lambda>pf c. Food_ID (snd pf) = c_Food_ID c)))))"
proof -
  let ?cols = "join_columns
                 (join_columns (aliased ''p'' providers_columns) (aliased ''f'' food_listings_columns))
                 (aliased ''c'' claims_columns)"
  have c: "?cols ''p.City'' = Some (\<lambda>row. p_City (fst (fst row)))" "?cols ''c.Status'' = Some (\<lambda>row. Status (snd row))"
    by (simp_all add: join_columns_def aliased_def providers_columns_def food_listings_columns_def claims_columns_def)
  have p1: "parse_where (and_join [completed_condition]) = Some [Eq_literal ''c.Status'' ''Completed'']"
    by (simp add: and_join_def completed_condition_def parse_where_def tokens_def parse_atom_def quoted_def)
  have p2: "parse_where (and_join [completed_condition, ''p.City IN %(cities)s''])
              = Some [Eq_literal ''c.Status'' ''Completed'', In_param ''p.City'' ''cities'']"
    by (simp add: and_join_def completed_condition_def parse_where_def tokens_def parse_atom_def
          quoted_def placeholder_def)
  show ?thesis
  proof (cases "truthy cities")
    case True
    then have ne: "tuple cities \<noteq> []" by (auto simp: truthy_def tuple_def split: option.splits)
    show ?thesis using True ne
      by (simp add: top_providers_successful_claims_def top_providers_successful_claims_where_def
            append_clause_def in_clause_def
            select_from_def compile_where_def p2 c on_rows_def selected_def)
  next
    case False
    then show ?thesis
      by (simp add: top_providers_successful_claims_def top_providers_successful_claims_where_def
            append_clause_def
            select_from_def compile_where_def p1 c on_rows_def selected_def)
  qed
qed

lemma count_receivers_eq:
  "count_receivers st cities =
     Inr (length (filter (\<lambda>r. selected (r_City r) cities)
            (receivers st)))"
proof -
  let ?ds = "[(''City'', cities, ''cities'')]"
  let ?cols = "receivers_columns"
  have c: "?cols ''City'' = Some (\<lambda>r. r_City r)"
    by (simp_all add: receivers_columns_def)
  have wf: "well_formed ?cols ?ds"
    by (simp add: well_formed_def c)
  have m: "matches ?cols ?ds = (\<lambda>r. selected (r_City r) cities)"
    by (rule ext) (simp add: matches_Cons matches_Nil c)
  have u: "count_receivers st cities =
          on_rows (\<lambda>rows. length rows) (select_from ?cols (fst (where_clause ?ds)) (snd (where_clause ?ds)) (receivers st))"
    by (simp add: count_receivers_def where_clause_def case_prod_beta Let_def)
  show ?thesis
    unfolding u by (simp add: select_from_where_clause [OF wf] m on_rows_def)
qed

lemma total_food_quantity_filtered_eq:
  "total_food_quantity_filtered st cities provider_types food_types meal_types =
     Inr (coalesce (sql_sum (map Quantity (filter (\<lambda>f. selected (Location f) cities \<and> selected (Provider_Type f) provider_types \<and> selected (Food_Type f) food_types \<and> selected (Meal_Type f) meal_types)
            (food_listings st)))) 0)"
proof -
  let ?ds = "[(''Location'', cities, ''cities''), (''Provider_Type'', provider_types, ''ptypes''), (''Food_Type'', food_types, ''ftypes''), (''Meal_Type'', meal_types, ''mtypes'')]"
  let ?cols = "food_listings_columns"
  have c: "?cols ''Location'' = Some (\<lambda>f. Location f)" "?cols ''Provider_Type'' = Some (\<lambda>f. Provider_Type f)" "?cols ''Food_Type'' = Some (\<lambda>f. Food_Type f)" "?cols ''Meal_Type'' = Some (\<lambda>f. Meal_Type f)"
    by (simp_all add: food_listings_columns_def)
  have wf: "well_formed ?cols ?ds"
    by (simp add: well_formed_def c)
  have m: "matches ?cols ?ds = (\<lambda>f. selected (Location f) cities \<and> selected (Provider_Type f) provider_types \<and> selected (Food_Type f) food_types \<and> selected (Meal_Type f) meal_types)"
    by (rule ext) (simp add: matches_Cons matches_Nil c)
  have u: "total_food_quantity_filtered st cities provider_types food_types meal_types =
          on_rows (\<lambda>rows. coalesce (sql_sum (map Quantity rows)) 0) (select_from ?cols (fst (where_clause ?ds)) (snd (where_clause ?ds)) (food_listings st))"
    by (simp add: total_food_quantity_filtered_def where_clause_def case_prod_beta Let_def)
  show ?thesis
    unfolding u by (simp add: select_from_where_clause [OF wf] m on_rows_def)
qed

lemma providers_per_city_eq:
  "providers_per_city st cities provider_types =
     Inr (group_by p_City length (filter (\<lambda>p. selected (p_City p) cities \<and> selected (p_Type p) provider_types)
            (providers st)))"
proof -
  let ?ds = "[(''City'', cities, ''cities''), (''Type'', provider_types, ''ptypes'')]"
  let ?cols = "providers_columns"
  have c: "?cols ''City'' = Some (\<lambda>p. p_City p)" "?cols ''Type'' = Some (\<lambda>p. p_Type p)"
    by (simp_all add: providers_columns_def)
  have wf: "well_formed ?cols ?ds"
    by (simp add: well_formed_def c)
  have m: "matches ?cols ?ds = (\<lambda>p. selected (p_City p) cities \<and> selected (p_Type p) provider_types)"
    by (rule ext) (simp add: matches_Cons matches_Nil c)
  have u: "providers_per_city st cities provider_types =
          on_rows (\<lambda>rows. group_by p_City length rows) (select_from ?cols (fst (where_clause ?ds)) (snd (where_clause ?ds)) (providers st))"
    by (simp add: providers_per_city_def where_clause_def case_prod_beta Let_def)
  show ?thesis
    unfolding u by (simp add: select_from_where_clause [OF wf] m on_rows_def)
qed

lemma receivers_per_city_eq:
  "receivers_per_city st cities =
     Inr (group_by r_City length (filter (\<lambda>r. selected (r_City r) cities)
            (receivers st)))"
proof -
  let ?ds = "[(''City'', cities, ''cities'')]"
  let ?cols = "receivers_columns"
  have c: "?cols ''City'' = Some (\<lambda>r. r_City r)"
    by (simp_all add: receivers_columns_def)
  have wf: "well_formed ?cols ?ds"
    by (simp add: well_formed_def c)
  have m: "matches ?cols ?ds = (\<lambda>r. selected (r_City r) cities)"
    by (rule ext) (simp add: matches_Cons matches_Nil c)
  have u: "receivers_per_city st cities =
          on_rows (\<lambda>rows. group_by r_City length rows) (select_from ?cols (fst (where_clause ?ds)) (snd (where_clause ?ds)) (receivers st))"
    by (simp add: receivers_per_city_def where_clause_def case_prod_beta Let_def)
  show ?thesis
    unfolding u by (simp add: select_from_where_clause [OF wf] m on_rows_def)
qed

lemma top_provider_types_eq:
  "top_provider_types st cities =
     Inr (order_desc snd (group_by p_Type length (filter (\<lambda>p. selected (p_City p) cities)
            (providers st))))"
proof -
  let ?ds = "[(''City'', cities, ''cities'')]"
  let ?cols = "providers_columns"
  have c: "?cols ''City'' = Some (\<lambda>p. p_City p)"
    by (simp_all add: providers_columns_def)
  have wf: "well_formed ?cols ?ds"
    by (simp add: well_formed_def c)
  have m: "matches ?cols ?ds = (\<lambda>p. selected (p_City p) cities)"
    by (rule ext) (simp add: matches_Cons matches_Nil c)
  have u: "top_provider_types st cities =
          on_rows (\<lambda>rows. order_desc snd (group_by p_Type length rows)) (select_from ?cols (fst (where_clause ?ds)) (snd (where_clause ?ds)) (providers st))"
    by (simp add: top_provider_types_def where_clause_def case_prod_beta Let_def)
  show ?thesis
    unfolding u by (simp add: select_from_where_clause [OF wf] m on_rows_def)
qed

lemma provider_contacts_eq:
  "provider_contacts st cities =
     Inr (map (\<lambda>p. (p_Name p, p_City p, p_Contact p)) (filter (\<lambda>p. selected (p_City p) cities)
            (providers st)))"
proof -
  let ?ds = "[(''City'', cities, ''cities'')]"
  let ?cols = "providers_columns"
  have c: "?cols ''City'' = Some (\<lambda>p. p_City p)"
    by (simp_all add: providers_columns_def)
  have wf: "well_formed ?cols ?ds"
    by (simp add: well_formed_def c)
  have m: "matches ?cols ?ds = (\<lambda>p. selected (p_City p) cities)"
    by (rule ext) (simp add: matches_Cons matches_Nil c)
  have u: "provider_contacts st cities =
          on_rows (\<lambda>rows. map (\<lambda>p. (p_Name p, p_City p, p_Contact p)) rows) (select_from ?cols (fst (where_clause ?ds)) (snd (where_clause ?ds)) (providers st))"
    by (simp add: provider_contacts_def where_clause_def case_prod_beta Let_def)
  show ?thesis
    unfolding u by (simp add: select_from_where_clause [OF wf] m on_rows_def)
qed

lemma city_highest_listings_eq:
  "city_highest_listings st cities provider_types food_types meal_types =
     Inr (order_desc snd (group_by Location length (filter (\<lambda>f. selected (Location f) cities \<and> selected (Provider_Type f) provider_types \<and> selected (Food_Type f) food_types \<and> selected (Meal_Type f) meal_types)
            (food_listings st))))"
proof -
  let ?ds = "[(''Location'', cities, ''cities''), (''Provider_Type'', provider_types, ''ptypes''), (''Food_Type'', food_types, ''ftypes''), (''Meal_Type'', meal_types, ''mtypes'')]"
  let ?cols = "food_listings_columns"
  have c: "?cols ''Location'' = Some (\<lambda>f. Location f)" "?cols ''Provider_Type'' = Some (\<lambda>f. Provider_Type f)" "?cols ''Food_Type'' = Some (\<lambda>f. Food_Type f)" "?cols ''Meal_Type'' = Some (\<lambda>f. Meal_Type f)"
    by (simp_all add: food_listings_columns_def)
  have wf: "well_formed ?cols ?ds"
    by (simp add: well_formed_def c)
  have m: "matches ?cols ?ds = (\<lambda>f. selected (Location f) cities \<and> selected (Provider_Type f) provider_types \<and> selected (Food_Type f) food_types \<and> selected (Meal_Type f) meal_types)"
    by (rule ext) (simp add: matches_Cons matches_Nil c)
  have u: "city_highest_listings st cities provider_types food_types meal_types =
          on_rows (\<lambda>rows. order_desc snd (group_by Location length rows)) (select_from ?cols (fst (where_clause ?ds)) (snd (where_clause ?ds)) (food_listings st))"
    by (simp add: city_highest_listings_def where_clause_def case_prod_beta Let_def)
  show ?thesis
    unfolding u by (simp add: select_from_where_clause [OF wf] m on_rows_def)
qed

lemma common_food_types_eq:
  "common_food_types st cities =
     Inr (order_desc snd (group_by Food_Type length (filter (\<lambda>f. selected (Location f) cities)
            (food_listings st))))"
proof -
  let ?ds = "[(''Location'', cities, ''cities'')]"
  let ?cols = "food_listings_columns"
  have c: "?cols ''Location'' = Some (\<lambda>f. Location f)"
    by (simp_all add: food_listings_columns_def)
  have wf: "well_formed ?cols ?ds"
    by (simp add: well_formed_def c)
  have m: "matches ?cols ?ds = (\<lambda>f. selected (Location f) cities)"
    by (rule ext) (simp add: matches_Cons matches_Nil c)
  have u: "common_food_types st cities =
          on_rows (\<lambda>rows. order_desc snd (group_by Food_Type length rows)) (select_from ?cols (fst (where_clause ?ds)) (snd (where_clause ?ds)) (food_listings st))"
    by (simp add: common_food_types_def where_clause_def case_prod_beta Let_def)
  show ?thesis
    unfolding u by (simp add: select_from_where_clause [OF wf] m on_rows_def)
qed

lemma claims_per_food_eq:
  "claims_per_food st cities claim_statuses =
     Inr (order_desc snd (group_by (\<lambda>row. Food_Name (fst (fst row))) length (filter (\<lambda>row. selected (r_City (snd row)) cities \<and> selected (Status (snd (fst row))) claim_statuses)
            (inner_join
                 (inner_join (food_listings st) (claims st) (\<lambda>f c. Food_ID f = c_Food_ID c))
                 (receivers st) (\<lambda>fc r. c_Receiver_ID (snd fc) = Receiver_ID r)))))"
proof -
  let ?ds = "[(''r.City'', cities, ''cities''), (''c.Status'', claim_statuses, ''cstats'')]"
  let ?cols = "join_columns (join_columns (aliased ''f'' food_listings_columns) (aliased ''c'' claims_columns)) (aliased ''r'' receivers_columns)"
  have c: "?cols ''r.City'' = Some (\<lambda>row. r_City (snd row))" "?cols ''c.Status'' = Some (\<lambda>row. Status (snd (fst row)))"
    by (simp_all add: join_columns_def aliased_def receivers_columns_def claims_columns_def food_listings_columns_def)
  have wf: "well_formed ?cols ?ds"
    by (simp add: well_formed_def c)
  have m: "matches ?cols ?ds = (\<lambda>row. selected (r_City (snd row)) cities \<and> selected (Status (snd (fst row))) claim_statuses)"
    by (rule ext) (simp add: matches_Cons matches_Nil c)
  show ?thesis
    by (simp add: claims_per_food_def case_prod_beta Let_def append_clause_two
          select_from_where_clause [OF wf] m on_rows_def)
qed

lemma avg_quantity_per_receiver_eq:
  "avg_quantity_per_receiver st cities =
     Inr (order_desc snd (group_by (\<lambda>row. r_Name (fst (fst row))) (\<lambda>g. sql_avg (map (\<lambda>row. Quantity (snd row)) g)) (filter (\<lambda>row. selected (r_City (fst (fst row))) cities)
            (inner_join
                 (inner_join (receivers st) (claims st) (\<lambda>r c. Receiver_ID r = c_Receiver_ID c))
                 (food_listings st) (\<lambda>rc f. c_Food_ID (snd rc) = Food_ID f)))))"
proof -
  let ?ds = "[(''r.City'', cities, ''cities'')]"
  let ?cols = "join_columns (join_columns (aliased ''r'' receivers_columns) (aliased ''c'' claims_columns)) (aliased ''f'' food_listings_columns)"
  have c: "?cols ''r.City'' = Some (\<lambda>row. r_City (fst (fst row)))"
    by (simp_all add: join_columns_def aliased_def receivers_columns_def claims_columns_def food_listings_columns_def)
  have wf: "well_formed ?cols ?ds"
    by (simp add: well_formed_def c)
  have m: "matches ?cols ?ds = (\<lambda>row. selected (r_City (fst (fst row))) cities)"
    by (rule ext) (simp add: matches_Cons matches_Nil c)
  show ?thesis
    by (simp add: avg_quantity_per_receiver_def case_prod_beta Let_def append_clause_one
          select_from_where_clause [OF wf] m on_rows_def)
qed

lemma most_claimed_meal_type_eq:
  "most_claimed_meal_type st cities =
     Inr (order_desc snd (group_by (\<lambda>row. Meal_Type (fst (fst row))) length (filter (\<lambda>row. selected (r_City (snd row)) cities)
            (inner_join
                 (inner_join (food_listings st) (claims st) (\<lambda>f c. Food_ID f = c_Food_ID c))
                 (receivers st) (\<lambda>fc r. c_Receiver_ID (snd fc) = Receiver_ID r)))))"
proof -
  let ?ds = "[(''r.City'', cities, ''cities'')]"
  let ?cols = "join_columns (join_columns (aliased ''f'' food_listings_columns) (aliased ''c'' claims_columns)) (aliased ''r'' receivers_columns)"
  have c: "?cols ''r.City'' = Some (\<lambda>row. r_City (snd row))"
    by (simp_all add: join_columns_def aliased_def receivers_columns_def claims_columns_def food_listings_columns_def)
  have wf: "well_formed ?cols ?ds"
    by (simp add: well_formed_def c)
  have m: "matches ?cols ?ds = (\<lambda>row. selected (r_City (snd row)) cities)"
    by (rule ext) (simp add: matches_Cons matches_Nil c)
  show ?thesis
    by (simp add: most_claimed_meal_type_def case_prod_beta Let_def append_clause_one
          select_from_where_clause [OF wf] m on_rows_def)
qed

lemma total_quantity_per_provider_eq:
  "total_quantity_per_provider st cities =
     Inr (order_desc snd (group_by (\<lambda>row. p_Name (fst row)) (\<lambda>g. sql_sum (map (\<lambda>row. Quantity (snd row)) g)) (filter (\<lambda>row. selected (p_City (fst row)) cities)
            (inner_join (providers st) (food_listings st) (\<lambda>p f. Provider_ID p = f_Provider_ID f)))))"
proof -
  let ?ds = "[(''p.City'', cities, ''cities'')]"
  let ?cols = "join_columns (aliased ''p'' providers_columns) (aliased ''f'' food_listings_columns)"
  have c: "?cols ''p.City'' = Some (\<lambda>row. p_City (fst row))"
    by (simp_all add: join_columns_def aliased_def providers_columns_def food_listings_columns_def)
  have wf: "well_formed ?cols ?ds"
    by (simp add: well_formed_def c)
  have m: "matches ?cols ?ds = (\<lambda>row. selected (p_City (fst row)) cities)"
    by (rule ext) (simp add: matches_Cons matches_Nil c)
  show ?thesis
    by (simp add: total_quantity_per_provider_def case_prod_beta Let_def append_clause_one
          select_from_where_clause [OF wf] m on_rows_def)
qed

lemma cities_with_most_claims_eq:
  "cities_with_most_claims st cities =
     Inr (order_desc snd (group_by (\<lambda>row. r_City (fst row)) length (filter (\<lambda>row. selected (r_City (fst row)) cities)
            (inner_join (receivers st) (claims st) (\<lambda>r c. Receiver_ID r = c_Receiver_ID c)))))"
proof -
  let ?ds = "[(''r.City'', cities, ''cities'')]"
  let ?cols = "join_columns (aliased ''r'' receivers_columns) (aliased ''c'' claims_columns)"
  have c: "?cols ''r.City'' = Some (\<lambda>row. r_City (fst row))"
    by (simp_all add: join_columns_def aliased_def receivers_columns_def claims_columns_def)
  have wf: "well_formed ?cols ?ds"
    by (simp add: well_formed_def c)
  have m: "matches ?cols ?ds = (\<lambda>row. selected (r_City (fst row)) cities)"
    by (rule ext) (simp add: matches_Cons matches_Nil c)
  show ?thesis
    by (simp add: cities_with_most_claims_def case_prod_beta Let_def append_clause_one
          select_from_where_clause [OF wf] m on_rows_def)
qed


lemma append_clause_skip: "\<not> truthy vals \<Longrightarrow> append_clause col vals name cp = cp"
  by (simp add: append_clause_def split: prod.splits)

lemma where_clause_skip:
  "\<not> truthy vals \<Longrightarrow> where_clause ((col, vals, name) # ds) = where_clause ds"
  by (simp add: where_clause_def in_clause_def and_join_def case_prod_beta)

lemma count_claims_eq:
  "count_claims st cities claim_statuses =
     Inr (if truthy cities
          then length (filter (\<lambda>row. selected (r_City (snd row)) cities \<and> selected (Status (fst row)) claim_statuses)
                 (inner_join (claims st) (receivers st) (\<lambda>c r. c_Receiver_ID c = Receiver_ID r)))
          else length (filter (\<lambda>c. selected (Status c) claim_statuses) (claims st)))"
proof (cases "truthy cities")
  case True
  let ?ds = "[(''r.City'', cities, ''cities''), (''c.Status'', claim_statuses, ''cstats'')]"
  let ?cols = "join_columns (aliased ''c'' claims_columns) (aliased ''r'' receivers_columns)"
  have c: "?cols ''r.City'' = Some (\<lambda>row. r_City (snd row))" "?cols ''c.Status'' = Some (\<lambda>row. Status (fst row))"
    by (simp_all add: join_columns_def aliased_def receivers_columns_def claims_columns_def)
  have wf: "well_formed ?cols ?ds"
    by (simp add: well_formed_def c)
  have m: "matches ?cols ?ds = (\<lambda>row. selected (r_City (snd row)) cities \<and> selected (Status (fst row)) claim_statuses)"
    by (rule ext) (simp add: matches_Cons matches_Nil c)
  show ?thesis
    using True
    by (simp add: count_claims_def case_prod_beta Let_def append_clause_two
          select_from_where_clause [OF wf] m on_rows_def)
next
  case False
  let ?ds = "[(''c.Status'', claim_statuses, ''cstats'')]"
  let ?cols = "aliased ''c'' claims_columns"
  have c: "?cols ''c.Status'' = Some (\<lambda>c. Status c)"
    by (simp_all add: aliased_def claims_columns_def)
  have wf: "well_formed ?cols ?ds"
    by (simp add: well_formed_def c)
  have m: "matches ?cols ?ds = (\<lambda>c. selected (Status c) claim_statuses)"
    by (rule ext) (simp add: matches_Cons matches_Nil c)
  show ?thesis
    using False
    by (simp add: count_claims_def case_prod_beta Let_def append_clause_skip [OF False] append_clause_one
          select_from_where_clause [OF wf] m on_rows_def)
qed

lemma select_from_no_where: "select_from cols [] Map.empty rows = Inr rows"
  by (simp add: select_from_def compile_where_def parse_where_def tokens_def)

lemma claim_status_distribution_eq:
  "claim_status_distribution st cities =
     Inr (if truthy cities
          then group_by (\<lambda>row. Status (fst row)) length
                 (filter (\<lambda>row. selected (r_City (snd row)) cities)
                    (inner_join (claims st) (receivers st) (\<lambda>c r. c_Receiver_ID c = Receiver_ID r)))
          else group_by Status length (claims st))"
proof (cases "truthy cities")
  case True
  let ?ds = "[(''r.City'', cities, ''cities'')]"
  let ?cols = "join_columns (aliased ''c'' claims_columns) (aliased ''r'' receivers_columns)"
  have c: "?cols ''r.City'' = Some (\<lambda>row. r_City (snd row))"
    by (simp_all add: join_columns_def aliased_def receivers_columns_def claims_columns_def)
  have wf: "well_formed ?cols ?ds"
    by (simp add: well_formed_def c)
  have m: "matches ?cols ?ds = (\<lambda>row. selected (r_City (snd row)) cities)"
    by (rule ext) (simp add: matches_Cons matches_Nil c)
  show ?thesis
    using True
    by (simp add: claim_status_distribution_def case_prod_beta Let_def append_clause_one
          select_from_where_clause [OF wf] m on_rows_def)
next
  case False
  then show ?thesis
    by (simp add: claim_status_distribution_def case_prod_beta Let_def append_clause_skip [OF False]
          and_join_def select_from_no_where on_rows_def)
qed


section \<open>Facts about the text, grouping and ordering\<close>

lemma same_shape_clauses:
  "map shape ds = map shape ds' \<Longrightarrow> map clause_text (active ds) = map clause_text (active ds')"
proof (induction ds arbitrary: ds')
  case Nil
  then show ?case by (simp add: active_def)
next
  case (Cons d ds)
  then obtain e es where e: "ds' = e # es" by (cases ds') auto
  with Cons.prems have s: "shape d = shape e" and r: "map shape ds = map shape es" by simp_all
  from Cons.IH [OF r] s e show ?case
    by (cases d; cases e) (auto simp: active_def shape_def clause_text_def)
qed

lemma where_clause_domain:
  "dom (snd (where_clause ds)) = set (map (\<lambda>(col, vals, name). name) (active ds))"
proof -
  have "dom (snd (in_clauses ds ps)) = dom ps \<union> set (map (\<lambda>(col, vals, name). name) (active ds))" for ps
  proof (induction ds arbitrary: ps)
    case Nil
    then show ?case by (simp add: active_def)
  next
    case (Cons d ds)
    obtain col vals name where d: "d = (col, vals, name)" by (cases d)
    show ?case
    proof (cases "truthy vals")
      case True
      have "dom (snd (in_clauses (d # ds) ps)) = dom (ps(name \<mapsto> tuple vals)) \<union> set (map (\<lambda>(col, vals, name). name) (active ds))"
        using True by (auto simp add: d in_clause_def case_prod_beta Cons.IH split: if_splits)
      also have "\<dots> = insert name (dom ps) \<union> set (map (\<lambda>(col, vals, name). name) (active ds))"
        by (simp only: dom_fun_upd option.distinct if_False)
      also have "\<dots> = dom ps \<union> set (map (\<lambda>(col, vals, name). name) (d # active ds))"
        by (simp add: d)
      also have "d # active ds = active (d # ds)"
        using True by (simp add: d active_def)
      finally show ?thesis .
    next
      case False
      then show ?thesis by (simp add: d in_clause_def case_prod_beta Cons.IH active_def)
    qed
  qed
  from this [of Map.empty] show ?thesis
    by (simp add: where_clause_def case_prod_beta)
qed

lemma set_order_desc: "set (order_desc f xs) = set xs"
  by (simp add: order_desc_def)

lemma distinct_order_desc: "distinct (map g (order_desc f xs)) = distinct (map g xs)"
  by (simp add: order_desc_def distinct_map)

lemma sorted_order_desc: "sorted (rev (map f (order_desc f xs)))"
  by (simp add: order_desc_def rev_map [symmetric])

lemma group_by_member:
  "(k, v) \<in> set (group_by key agg rows) \<longleftrightarrow>
     k \<in> key ` set rows \<and> v = agg (filter (\<lambda>r. key r = k) rows)"
  by (auto simp: group_by_def)

lemma group_by_keys: "map fst (group_by key agg rows) = remdups (map key rows)"
  by (simp add: group_by_def comp_def)

lemma key_present: "k \<in> key ` set rows \<longleftrightarrow> 0 < length (filter (\<lambda>r. key r = k) rows)"
  by (auto simp: filter_empty_conv)

lemma filter_key_filter:
  "filter (\<lambda>r. key r = k) (filter P rows) = filter (\<lambda>r. key r = k \<and> P r) rows"
  by (simp add: conj_commute)


section \<open>Sums over a partition\<close>

lemma total_of_values: "total_of (map (\<lambda>x. Inr (f x)) xs) = Inr (sum_list (map f xs))"
  by (induction xs) simp_all

lemma sum_outside_cells:
  "list_all (\<lambda>d. s \<notin> set d) cs \<Longrightarrow>
   sum_list (map (\<lambda>cell. if s \<in> set cell then w else (0::'a::comm_monoid_add)) cs) = 0"
  by (induction cs) simp_all

lemma sum_one_cell:
  "disjoint_cells cells \<Longrightarrow> list_ex (\<lambda>cell. s \<in> set cell) cells \<Longrightarrow>
   sum_list (map (\<lambda>cell. if s \<in> set cell then w else (0::'a::comm_monoid_add)) cells) = w"
proof (induction cells)
  case Nil
  then show ?case by simp
next
  case (Cons c cs)
  show ?case
  proof (cases "s \<in> set c")
    case True
    with Cons.prems have "list_all (\<lambda>d. s \<notin> set d) cs"
      by (auto simp: list_all_iff)
    from sum_outside_cells [OF this, of w] True show ?thesis by simp
  next
    case False
    with Cons show ?thesis by simp
  qed
qed

lemma partition_sum:
  fixes w :: "'r \<Rightarrow> 'a::comm_monoid_add"
  assumes "disjoint_cells cells" "list_all (\<lambda>r. covered cells (city r)) rows"
  shows "sum_list (map (\<lambda>cell. sum_list (map w (filter (in_cell city cell) rows))) cells)
           = sum_list (map w rows)"
  using assms(2)
proof (induction rows)
  case Nil
  then show ?case by simp
next
  case (Cons r rows)
  then obtain s where s: "city r = Some s" and ex: "list_ex (\<lambda>cell. s \<in> set cell) cells"
    by (auto simp: covered_def split: option.splits)
  have "sum_list (map (\<lambda>cell. sum_list (map w (filter (in_cell city cell) (r # rows)))) cells)
          = sum_list (map (\<lambda>cell. (if s \<in> set cell then w r else 0)
                                   + sum_list (map w (filter (in_cell city cell) rows))) cells)"
    by (rule arg_cong [where f = sum_list]) (simp add: in_cell_def s)
  also have "\<dots> = sum_list (map (\<lambda>cell. if s \<in> set cell then w r else 0) cells)
                    + sum_list (map (\<lambda>cell. sum_list (map w (filter (in_cell city cell) rows))) cells)"
    by (rule sum_list_addf)
  also have "\<dots> = w r + sum_list (map w rows)"
    using sum_one_cell [OF assms(1) ex, of "w r"] Cons by simp
  finally show ?case by simp
qed

lemma selected_cell: "cell \<noteq> [] \<Longrightarrow> selected v (Some cell) = (case v of None \<Rightarrow> False | Some s \<Rightarrow> s \<in> set cell)"
  by (cases v) (simp_all add: selected_def truthy_def tuple_def)

lemma selected_None: "selected v None = True"
  by (simp add: selected_def truthy_def)

lemma partition_counts:
  assumes "city_partition cells (map city rows)"
  shows "sum_list (map (\<lambda>cell. length (filter (\<lambda>r. selected (city r) (Some cell) \<and> Q r) rows)) cells)
           = length (filter Q rows)"
proof -
  from assms have d: "disjoint_cells cells" and ne: "list_all (\<lambda>cell. cell \<noteq> []) cells"
    and cov: "list_all (\<lambda>r. covered cells (city r)) (filter Q rows)"
    by (auto simp: city_partition_def list_all_iff)
  have "length (filter (\<lambda>r. selected (city r) (Some cell) \<and> Q r) rows)
          = sum_list (map (\<lambda>r. 1) (filter (in_cell city cell) (filter Q rows)))"
    if "cell \<in> set cells" for cell
  proof -
    from that ne have "cell \<noteq> []" by (simp add: list_all_iff)
    then have "filter (\<lambda>r. selected (city r) (Some cell) \<and> Q r) rows = filter (in_cell city cell) (filter Q rows)"
      by (simp add: selected_cell in_cell_def conj_commute)
    then show ?thesis by (simp add: sum_list_triv)
  qed
  then have "sum_list (map (\<lambda>cell. length (filter (\<lambda>r. selected (city r) (Some cell) \<and> Q r) rows)) cells)
          = sum_list (map (\<lambda>cell. sum_list (map (\<lambda>r. 1) (filter (in_cell city cell) (filter Q rows)))) cells)"
    by (intro arg_cong [where f = sum_list] map_cong) simp_all
  also have "\<dots> = sum_list (map (\<lambda>r. 1) (filter Q rows))"
    by (rule partition_sum [OF d cov])
  finally show ?thesis by (simp add: sum_list_triv)
qed

lemma partition_sums:
  fixes w :: "'r \<Rightarrow> int"
  assumes "city_partition cells (map city rows)"
  shows "sum_list (map (\<lambda>cell. sum_list (map w (filter (\<lambda>r. selected (city r) (Some cell) \<and> Q r) rows))) cells)
           = sum_list (map w (filter Q rows))"
proof -
  from assms have d: "disjoint_cells cells" and ne: "list_all (\<lambda>cell. cell \<noteq> []) cells"
    and cov: "list_all (\<lambda>r. covered cells (city r)) (filter Q rows)"
    by (auto simp: city_partition_def list_all_iff)
  have "filter (\<lambda>r. selected (city r) (Some cell) \<and> Q r) rows = filter (in_cell city cell) (filter Q rows)"
    if "cell \<in> set cells" for cell
  proof -
    from that ne have "cell \<noteq> []" by (simp add: list_all_iff)
    then show ?thesis
      by (simp add: selected_cell in_cell_def conj_commute)
  qed
  then have "sum_list (map (\<lambda>cell. sum_list (map w (filter (\<lambda>r. selected (city r) (Some cell) \<and> Q r) rows))) cells)
          = sum_list (map (\<lambda>cell. sum_list (map w (filter (in_cell city cell) (filter Q rows)))) cells)"
    by (intro arg_cong [where f = sum_list] map_cong) simp_all
  also have "\<dots> = sum_list (map w (filter Q rows))"
    by (rule partition_sum [OF d cov])
  finally show ?thesis .
qed


lemma one_match:
  "distinct (map f xs) \<Longrightarrow> k \<in> set (map f xs) \<Longrightarrow> length (filter (\<lambda>x. k = f x) xs) = 1"
proof (induction xs)
  case Nil
  then show ?case by simp
next
  case (Cons x xs)
  show ?case
  proof (cases "k = f x")
    case True
    with Cons.prems have "filter (\<lambda>y. k = f y) xs = []"
      by (auto simp: filter_empty_conv)
    with True show ?thesis by simp
  next
    case False
    with Cons show ?thesis by simp
  qed
qed

lemma join_fst:
  "list_all (\<lambda>a. length (filter (on a) bs) = 1) as \<Longrightarrow> map fst (inner_join as bs on) = as"
proof (induction as)
  case Nil
  then show ?case by (simp add: inner_join_def)
next
  case (Cons a as)
  then have "length (filter (on a) bs) = 1" by simp
  then obtain b where "filter (on a) bs = [b]"
    by (cases "filter (on a) bs") auto
  with Cons show ?case by (simp add: inner_join_def)
qed

lemma join_snd: "row \<in> set (inner_join as bs on) \<Longrightarrow> snd row \<in> set bs"
  by (auto simp: inner_join_def)

lemma claims_join_receivers:
  assumes "claims_reference_receivers st"
  shows "map fst (inner_join (claims st) (receivers st) (\<lambda>c r. c_Receiver_ID c = Receiver_ID r)) = claims st"
proof (rule join_fst)
  have "length (filter (\<lambda>r. c_Receiver_ID c = Receiver_ID r) (receivers st)) = 1"
    if "c \<in> set (claims st)" for c
  proof (rule one_match)
    from assms show "distinct (map Receiver_ID (receivers st))"
      by (simp add: claims_reference_receivers_def)
    from assms that show "c_Receiver_ID c \<in> set (map Receiver_ID (receivers st))"
      by (simp add: claims_reference_receivers_def list_all_iff)
  qed
  then show "list_all (\<lambda>c. length (filter (\<lambda>r. c_Receiver_ID c = Receiver_ID r) (receivers st)) = 1) (claims st)"
    by (simp add: list_all_iff)
qed

lemma coalesce_sum: "coalesce (sql_sum xs) 0 = sum_list xs"
  by (simp add: coalesce_def sql_sum_def)

lemma kpi_providers_partition:
  assumes "city_partition cells (map p_City (providers st))"
  shows "total_of (map (\<lambda>cell. count_providers st (Some cell) provider_types) cells)
           = count_providers st None provider_types"
  using partition_counts [OF assms, of "\<lambda>p. selected (p_Type p) provider_types"]
  by (simp add: count_providers_eq total_of_values selected_None)

lemma kpi_receivers_partition:
  assumes "city_partition cells (map r_City (receivers st))"
  shows "total_of (map (\<lambda>cell. count_receivers st (Some cell)) cells) = count_receivers st None"
  using partition_counts [OF assms, of "\<lambda>r. True"]
  by (simp add: count_receivers_eq total_of_values selected_None)

lemma kpi_quantity_partition:
  assumes "city_partition cells (map Location (food_listings st))"
  shows "total_of (map (\<lambda>cell. total_food_quantity_filtered st (Some cell) provider_types food_types meal_types) cells)
           = total_food_quantity_filtered st None provider_types food_types meal_types"
  using partition_sums [OF assms, of Quantity
      "\<lambda>f. selected (Provider_Type f) provider_types \<and> selected (Food_Type f) food_types
             \<and> selected (Meal_Type f) meal_types"]
  by (simp add: total_food_quantity_filtered_eq total_of_values selected_None coalesce_sum)

lemma kpi_claims_partition:
  assumes "city_partition cells (claimed_receiver_cities st)" and "claims_reference_receivers st"
  shows "total_of (map (\<lambda>cell. count_claims st (Some cell) claim_statuses) cells)
           = count_claims st None claim_statuses"
proof -
  let ?J = "inner_join (claims st) (receivers st) (\<lambda>c r. c_Receiver_ID c = Receiver_ID r)"
  let ?Q = "\<lambda>c. selected (Status c) claim_statuses"
  from assms(1) have ne: "list_all (\<lambda>cell. cell \<noteq> []) cells"
    by (simp add: city_partition_def)
  have p: "city_partition cells (map (\<lambda>row. r_City (snd row)) ?J)"
    using assms(1) by (simp add: claimed_receiver_cities_def)
  have t: "truthy (Some cell)" if "cell \<in> set cells" for cell
    using that ne by (simp add: truthy_def list_all_iff)
  have e: "map (\<lambda>cell. count_claims st (Some cell) claim_statuses) cells
          = map (\<lambda>cell. Inr (length (filter (\<lambda>row. selected (r_City (snd row)) (Some cell) \<and> ?Q (fst row)) ?J))) cells"
    by (rule map_cong) (simp_all add: count_claims_eq t)
  have "total_of (map (\<lambda>cell. count_claims st (Some cell) claim_statuses) cells)
          = Inr (length (filter (\<lambda>row. ?Q (fst row)) ?J))"
    unfolding e total_of_values
    using partition_counts [OF p, of "\<lambda>row. ?Q (fst row)"] by simp
  also have "length (filter (\<lambda>row. ?Q (fst row)) ?J) = length (filter ?Q (map fst ?J))"
    by (simp add: filter_map comp_def)
  also have "\<dots> = length (filter ?Q (claims st))"
    by (simp add: claims_join_receivers [OF assms(2)])
  finally show ?thesis
    by (simp add: count_claims_eq truthy_def)
qed


section \<open>The city filter and the groups of a report\<close>

lemma selected_one: "selected v (Some [X]) = (v = Some X)"
  by (cases v) (simp_all add: selected_def truthy_def tuple_def)

lemma selected_two: "selected v (Some [X, Y]) = (v = Some X \<or> v = Some Y)"
  by (cases v) (simp_all add: selected_def truthy_def tuple_def)

lemma group_by_mono_keys:
  assumes "\<And>r. P1 r \<Longrightarrow> P2 r"
  shows "fst ` set (group_by key agg (filter P1 rows)) \<subseteq> fst ` set (group_by key agg (filter P2 rows))"
proof -
  have "fst ` set (group_by key agg rs) = key ` set rs" for rs :: "'a list"
    by (simp add: group_by_def image_image)
  with assms show ?thesis by auto
qed

lemma group_by_restrict:
  assumes "\<And>r. P1 r \<longleftrightarrow> P2 r \<and> city r = Some X" and "\<And>r. g (key r) = city r"
    and "kv \<in> set (group_by key agg (filter P1 rows))"
  shows "kv \<in> set (group_by key agg (filter P2 rows)) \<and> g (fst kv) = Some X"
proof -
  obtain k v where kv: "kv = (k, v)" by (cases kv)
  from assms(3) kv obtain r where r: "r \<in> set rows" "P1 r" "key r = k"
    and v: "v = agg (filter (\<lambda>r. key r = k) (filter P1 rows))"
    by (auto simp: group_by_member)
  from r assms(1,2) have gk: "g k = Some X" and p2: "P2 r" by auto
  have "filter (\<lambda>r. key r = k) (filter P1 rows) = filter (\<lambda>r. key r = k) (filter P2 rows)"
    unfolding filter_key_filter
    by (rule filter_cong) (use assms(1,2) gk in auto)
  with v r p2 gk kv show ?thesis
    by (auto simp: group_by_member)
qed


lemma grouped_report_keys:
  fixes city :: "'r \<Rightarrow> sql_text" and h :: "'k \<times> 'v \<Rightarrow> result_row"
  assumes "\<And>xs :: ('k \<times> 'v) list. set (ord xs) = set xs"
    and "\<And>kv. fst (h kv) = kf (fst kv)"
  shows "fst ` set (map h (ord (group_by key agg (filter (\<lambda>r. city r = Some X \<and> Q r) rows))))
           \<subseteq> fst ` set (map h (ord (group_by key agg
                 (filter (\<lambda>r. (city r = Some X \<or> city r = Some Y) \<and> Q r) rows))))"
proof -
  have m: "fst ` set (group_by key agg (filter (\<lambda>r. city r = Some X \<and> Q r) rows))
             \<subseteq> fst ` set (group_by key agg (filter (\<lambda>r. (city r = Some X \<or> city r = Some Y) \<and> Q r) rows))"
    by (rule group_by_mono_keys) simp
  have e: "fst ` h ` A = kf ` fst ` A" for A
    by (simp add: image_image assms(2))
  from m have "kf ` fst ` set (group_by key agg (filter (\<lambda>r. city r = Some X \<and> Q r) rows))
             \<subseteq> kf ` fst ` set (group_by key agg (filter (\<lambda>r. (city r = Some X \<or> city r = Some Y) \<and> Q r) rows))"
    by (rule image_mono)
  then show ?thesis
    by (simp only: set_map assms(1) e)
qed

lemma grouped_report_rows:
  fixes city :: "'r \<Rightarrow> sql_text" and h :: "'k \<times> 'v \<Rightarrow> result_row"
  assumes "\<And>xs :: ('k \<times> 'v) list. set (ord xs) = set xs"
    and "\<And>kv. i < length (fst (h kv)) \<and> fst (h kv) ! i = g (fst kv)"
    and "\<And>r. g (key r) = city r"
  shows "set (map h (ord (group_by key agg (filter (\<lambda>r. city r = Some X \<and> Q r) rows))))
           \<subseteq> of_city i X (map h (ord (group_by key agg
                 (filter (\<lambda>r. (city r = Some X \<or> city r = Some Y) \<and> Q r) rows))))"
proof
  fix row
  assume "row \<in> set (map h (ord (group_by key agg (filter (\<lambda>r. city r = Some X \<and> Q r) rows))))"
  then obtain kv where kv: "kv \<in> set (group_by key agg (filter (\<lambda>r. city r = Some X \<and> Q r) rows))"
    and row: "row = h kv"
    by (auto simp: assms(1))
  have "kv \<in> set (group_by key agg (filter (\<lambda>r. (city r = Some X \<or> city r = Some Y) \<and> Q r) rows))
          \<and> g (fst kv) = Some X"
    by (rule group_by_restrict [where city = city, OF _ assms(3) kv]) auto
  with row show "row \<in> of_city i X (map h (ord (group_by key agg
                 (filter (\<lambda>r. (city r = Some X \<or> city r = Some Y) \<and> Q r) rows))))"
    by (auto simp: of_city_def assms(1,2))
qed

lemma set_id: "set ((\<lambda>xs. xs) xs) = set xs"
  by simp

lemma providers_per_city_monotone:
  "\<exists>t1 t2. run_report Providers_per_city st (f\<lparr>sel_cities := Some [X]\<rparr>) = Inr t1
         \<and> run_report Providers_per_city st (f\<lparr>sel_cities := Some [X, Y]\<rparr>) = Inr t2
         \<and> fst ` set t1 \<subseteq> fst ` set t2
         \<and> (case city_column Providers_per_city of None \<Rightarrow> True | Some i \<Rightarrow> set t1 \<subseteq> of_city i X t2)"
proof -
  let ?h = "\<lambda>kv :: sql_text \<times> nat. ([fst kv], Count (snd kv))"
  let ?Q = "\<lambda>p. selected (p_Type p) (sel_provider_types f)"
  let ?t1 = "map ?h ((\<lambda>xs. xs) (group_by p_City length (filter (\<lambda>p. p_City p = Some X \<and> ?Q p) (providers st))))"
  let ?t2 = "map ?h ((\<lambda>xs. xs) (group_by p_City length (filter (\<lambda>p. (p_City p = Some X \<or> p_City p = Some Y) \<and> ?Q p) (providers st))))"
  have r1: "run_report Providers_per_city st (f\<lparr>sel_cities := Some [X]\<rparr>) = Inr ?t1"
    by (simp add: providers_per_city_eq on_rows_def counted_def selected_one truthy_def)
  have r2: "run_report Providers_per_city st (f\<lparr>sel_cities := Some [X, Y]\<rparr>) = Inr ?t2"
    by (simp add: providers_per_city_eq on_rows_def counted_def selected_two truthy_def)
  have k: "fst ` set ?t1 \<subseteq> fst ` set ?t2"
    by (rule grouped_report_keys [where ord = "\<lambda>xs. xs" and h = ?h and kf = "\<lambda>k. [k]"]) simp_all
  have c: "set ?t1 \<subseteq> of_city 0 X ?t2"
    by (rule grouped_report_rows [where ord = "\<lambda>xs. xs" and h = ?h and g = "\<lambda>k. k"]) simp_all
  from r1 r2 k c show ?thesis by simp
qed

lemma receivers_per_city_monotone:
  "\<exists>t1 t2. run_report Receivers_per_city st (f\<lparr>sel_cities := Some [X]\<rparr>) = Inr t1
         \<and> run_report Receivers_per_city st (f\<lparr>sel_cities := Some [X, Y]\<rparr>) = Inr t2
         \<and> fst ` set t1 \<subseteq> fst ` set t2
         \<and> (case city_column Receivers_per_city of None \<Rightarrow> True | Some i \<Rightarrow> set t1 \<subseteq> of_city i X t2)"
proof -
  let ?h = "\<lambda>kv :: sql_text \<times> nat. ([fst kv], Count (snd kv))"
  let ?rows = "receivers st"
  let ?t1 = "map ?h ((\<lambda>xs. xs) (group_by (r_City) (length) (filter (\<lambda>row :: receiver. r_City row = Some X \<and> True) ?rows)))"
  let ?t2 = "map ?h ((\<lambda>xs. xs) (group_by (r_City) (length) (filter (\<lambda>row :: receiver. (r_City row = Some X \<or> r_City row = Some Y) \<and> True) ?rows)))"
  have r1: "run_report Receivers_per_city st (f\<lparr>sel_cities := Some [X]\<rparr>) = Inr ?t1"
    by (simp add: receivers_per_city_eq on_rows_def counted_def selected_one truthy_def)
  have r2: "run_report Receivers_per_city st (f\<lparr>sel_cities := Some [X, Y]\<rparr>) = Inr ?t2"
    by (simp add: receivers_per_city_eq on_rows_def counted_def selected_two truthy_def)
  have k: "fst ` set ?t1 \<subseteq> fst ` set ?t2"
    by (rule grouped_report_keys [where ord = "\<lambda>xs. xs" and h = ?h and kf = "\<lambda>k. [k]"]) simp_all
  have c: "set ?t1 \<subseteq> of_city 0 X ?t2"
    by (rule grouped_report_rows [where ord = "\<lambda>xs. xs" and h = ?h and g = "\<lambda>k. k"]) simp_all
  from r1 r2 k c show ?thesis by simp
qed

lemma top_provider_types_monotone:
  "\<exists>t1 t2. run_report Top_provider_types st (f\<lparr>sel_cities := Some [X]\<rparr>) = Inr t1
         \<and> run_report Top_provider_types st (f\<lparr>sel_cities := Some [X, Y]\<rparr>) = Inr t2
         \<and> fst ` set t1 \<subseteq> fst ` set t2
         \<and> (case city_column Top_provider_types of None \<Rightarrow> True | Some i \<Rightarrow> set t1 \<subseteq> of_city i X t2)"
proof -
  let ?h = "\<lambda>kv :: sql_text \<times> nat. ([fst kv], Count (snd kv))"
  let ?rows = "providers st"
  let ?t1 = "map ?h ((order_desc snd) (group_by (p_Type) (length) (filter (\<lambda>row :: provider. p_City row = Some X \<and> True) ?rows)))"
  let ?t2 = "map ?h ((order_desc snd) (group_by (p_Type) (length) (filter (\<lambda>row :: provider. (p_City row = Some X \<or> p_City row = Some Y) \<and> True) ?rows)))"
  have r1: "run_report Top_provider_types st (f\<lparr>sel_cities := Some [X]\<rparr>) = Inr ?t1"
    by (simp add: top_provider_types_eq on_rows_def counted_def selected_one truthy_def)
  have r2: "run_report Top_provider_types st (f\<lparr>sel_cities := Some [X, Y]\<rparr>) = Inr ?t2"
    by (simp add: top_provider_types_eq on_rows_def counted_def selected_two truthy_def)
  have k: "fst ` set ?t1 \<subseteq> fst ` set ?t2"
    by (rule grouped_report_keys [where ord = "order_desc snd" and h = ?h and kf = "\<lambda>k. [k]"]) (simp_all add: set_order_desc)
  from r1 r2 k show ?thesis by simp
qed

lemma top_receivers_monotone:
  "\<exists>t1 t2. run_report Top_receivers st (f\<lparr>sel_cities := Some [X]\<rparr>) = Inr t1
         \<and> run_report Top_receivers st (f\<lparr>sel_cities := Some [X, Y]\<rparr>) = Inr t2
         \<and> fst ` set t1 \<subseteq> fst ` set t2
         \<and> (case city_column Top_receivers of None \<Rightarrow> True | Some i \<Rightarrow> set t1 \<subseteq> of_city i X t2)"
proof -
  let ?h = "\<lambda>kv :: (sql_text \<times> sql_text) \<times> nat. ([fst (fst kv), snd (fst kv)], Count (snd kv))"
  let ?rows = "inner_join (receivers st) (claims st) (\<lambda>r c. Receiver_ID r = c_Receiver_ID c)"
  let ?t1 = "map ?h ((order_desc snd) (group_by (\<lambda>row. (r_Name (fst row), r_City (fst row))) (length) (filter (\<lambda>row :: receiver \<times> claim. r_City (fst row) = Some X \<and> selected (Status (snd row)) (sel_claim_statuses f)) ?rows)))"
  let ?t2 = "map ?h ((order_desc snd) (group_by (\<lambda>row. (r_Name (fst row), r_City (fst row))) (length) (filter (\<lambda>row :: receiver \<times> claim. (r_City (fst row) = Some X \<or> r_City (fst row) = Some Y) \<and> selected (Status (snd row)) (sel_claim_statuses f)) ?rows)))"
  have r1: "run_report Top_receivers st (f\<lparr>sel_cities := Some [X]\<rparr>) = Inr ?t1"
    by (simp add: top_receivers_eq on_rows_def counted_def selected_one truthy_def)
  have r2: "run_report Top_receivers st (f\<lparr>sel_cities := Some [X, Y]\<rparr>) = Inr ?t2"
    by (simp add: top_receivers_eq on_rows_def counted_def selected_two truthy_def)
  have k: "fst ` set ?t1 \<subseteq> fst ` set ?t2"
    by (rule grouped_report_keys [where ord = "order_desc snd" and h = ?h and kf = "\<lambda>k. [fst k, snd k]"]) (simp_all add: set_order_desc)
  have c: "set ?t1 \<subseteq> of_city 1 X ?t2"
    by (rule grouped_report_rows [where ord = "order_desc snd" and h = ?h and g = "snd"]) (simp_all add: set_order_desc)
  from r1 r2 k c show ?thesis by simp
qed

lemma city_highest_listings_monotone:
  "\<exists>t1 t2. run_report City_highest_listings st (f\<lparr>sel_cities := Some [X]\<rparr>) = Inr t1
         \<and> run_report City_highest_listings st (f\<lparr>sel_cities := Some [X, Y]\<rparr>) = Inr t2
         \<and> fst ` set t1 \<subseteq> fst ` set t2
         \<and> (case city_column City_highest_listings of None \<Rightarrow> True | Some i \<Rightarrow> set t1 \<subseteq> of_city i X t2)"
proof -
  let ?h = "\<lambda>kv :: sql_text \<times> nat. ([fst kv], Count (snd kv))"
  let ?rows = "food_listings st"
  let ?t1 = "map ?h ((order_desc snd) (group_by (Location) (length) (filter (\<lambda>row :: food_listing. Location row = Some X \<and> selected (Provider_Type row) (sel_provider_types f) \<and> selected (Food_Type row) (sel_food_types f) \<and> selected (Meal_Type row) (sel_meal_types f)) ?rows)))"
  let ?t2 = "map ?h ((order_desc snd) (group_by (Location) (length) (filter (\<lambda>row :: food_listing. (Location row = Some X \<or> Location row = Some Y) \<and> selected (Provider_Type row) (sel_provider_types f) \<and> selected (Food_Type row) (sel_food_types f) \<and> selected (Meal_Type row) (sel_meal_types f)) ?rows)))"
  have r1: "run_report City_highest_listings st (f\<lparr>sel_cities := Some [X]\<rparr>) = Inr ?t1"
    by (simp add: city_highest_listings_eq on_rows_def counted_def selected_one truthy_def)
  have r2: "run_report City_highest_listings st (f\<lparr>sel_cities := Some [X, Y]\<rparr>) = Inr ?t2"
    by (simp add: city_highest_listings_eq on_rows_def counted_def selected_two truthy_def)
  have k: "fst ` set ?t1 \<subseteq> fst ` set ?t2"
    by (rule grouped_report_keys [where ord = "order_desc snd" and h = ?h and kf = "\<lambda>k. [k]"]) (simp_all add: set_order_desc)
  have c: "set ?t1 \<subseteq> of_city 0 X ?t2"
    by (rule grouped_report_rows [where ord = "order_desc snd" and h = ?h and g = "\<lambda>k. k"]) (simp_all add: set_order_desc)
  from r1 r2 k c show ?thesis by simp
qed

lemma common_food_types_monotone:
  "\<exists>t1 t2. run_report Common_food_types st (f\<lparr>sel_cities := Some [X]\<rparr>) = Inr t1
         \<and> run_report Common_food_types st (f\<lparr>sel_cities := Some [X, Y]\<rparr>) = Inr t2
         \<and> fst ` set t1 \<subseteq> fst ` set t2
         \<and> (case city_column Common_food_types of None \<Rightarrow> True | Some i \<Rightarrow> set t1 \<subseteq> of_city i X t2)"
proof -
  let ?h = "\<lambda>kv :: sql_text \<times> nat. ([fst kv], Count (snd kv))"
  let ?rows = "food_listings st"
  let ?t1 = "map ?h ((order_desc snd) (group_by (Food_Type) (length) (filter (\<lambda>row :: food_listing. Location row = Some X \<and> True) ?rows)))"
  let ?t2 = "map ?h ((order_desc snd) (group_by (Food_Type) (length) (filter (\<lambda>row :: food_listing. (Location row = Some X \<or> Location row = Some Y) \<and> True) ?rows)))"
  have r1: "run_report Common_food_types st (f\<lparr>sel_cities := Some [X]\<rparr>) = Inr ?t1"
    by (simp add: common_food_types_eq on_rows_def counted_def selected_one truthy_def)
  have r2: "run_report Common_food_types st (f\<lparr>sel_cities := Some [X, Y]\<rparr>) = Inr ?t2"
    by (simp add: common_food_types_eq on_rows_def counted_def selected_two truthy_def)
  have k: "fst ` set ?t1 \<subseteq> fst ` set ?t2"
    by (rule grouped_report_keys [where ord = "order_desc snd" and h = ?h and kf = "\<lambda>k. [k]"]) (simp_all add: set_order_desc)
  from r1 r2 k show ?thesis by simp
qed

lemma claims_per_food_monotone:
  "\<exists>t1 t2. run_report Claims_per_food st (f\<lparr>sel_cities := Some [X]\<rparr>) = Inr t1
         \<and> run_report Claims_per_food st (f\<lparr>sel_cities := Some [X, Y]\<rparr>) = Inr t2
         \<and> fst ` set t1 \<subseteq> fst ` set t2
         \<and> (case city_column Claims_per_food of None \<Rightarrow> True | Some i \<Rightarrow> set t1 \<subseteq> of_city i X t2)"
proof -
  let ?h = "\<lambda>kv :: sql_text \<times> nat. ([fst kv], Count (snd kv))"
  let ?rows = "inner_join (inner_join (food_listings st) (claims st) (\<lambda>f c. Food_ID f = c_Food_ID c)) (receivers st) (\<lambda>fc r. c_Receiver_ID (snd fc) = Receiver_ID r)"
  let ?t1 = "map ?h ((order_desc snd) (group_by (\<lambda>row. Food_Name (fst (fst row))) (length) (filter (\<lambda>row :: (food_listing \<times> claim) \<times> receiver. r_City (snd row) = Some X \<and> selected (Status (snd (fst row))) (sel_claim_statuses f)) ?rows)))"
  let ?t2 = "map ?h ((order_desc snd) (group_by (\<lambda>row. Food_Name (fst (fst row))) (length) (filter (\<lambda>row :: (food_listing \<times> claim) \<times> receiver. (r_City (snd row) = Some X \<or> r_City (snd row) = Some Y) \<and> selected (Status (snd (fst row))) (sel_claim_statuses f)) ?rows)))"
  have r1: "run_report Claims_per_food st (f\<lparr>sel_cities := Some [X]\<rparr>) = Inr ?t1"
    by (simp add: claims_per_food_eq on_rows_def counted_def selected_one truthy_def)
  have r2: "run_report Claims_per_food st (f\<lparr>sel_cities := Some [X, Y]\<rparr>) = Inr ?t2"
    by (simp add: claims_per_food_eq on_rows_def counted_def selected_two truthy_def)
  have k: "fst ` set ?t1 \<subseteq> fst ` set ?t2"
    by (rule grouped_report_keys [where ord = "order_desc snd" and h = ?h and kf = "\<lambda>k. [k]"]) (simp_all add: set_order_desc)
  from r1 r2 k show ?thesis by simp
qed

lemma top_providers_successful_claims_monotone:
  "\<exists>t1 t2. run_report Top_providers_successful_claims st (f\<lparr>sel_cities := Some [X]\<rparr>) = Inr t1
         \<and> run_report Top_providers_successful_claims st (f\<lparr>sel_cities := Some [X, Y]\<rparr>) = Inr t2
         \<and> fst ` set t1 \<subseteq> fst ` set t2
         \<and> (case city_column Top_providers_successful_claims of None \<Rightarrow> True | Some i \<Rightarrow> set t1 \<subseteq> of_city i X t2)"
proof -
  let ?h = "\<lambda>kv :: sql_text \<times> nat. ([fst kv], Count (snd kv))"
  let ?rows = "inner_join (inner_join (providers st) (food_listings st) (\<lambda>p f. Provider_ID p = f_Provider_ID f)) (claims st) (\<lambda>pf c. Food_ID (snd pf) = c_Food_ID c)"
  let ?t1 = "map ?h ((order_desc snd) (group_by (\<lambda>row. p_Name (fst (fst row))) (length) (filter (\<lambda>row :: (provider \<times> food_listing) \<times> claim. p_City (fst (fst row)) = Some X \<and> Status (snd row) = Some ''Completed'') ?rows)))"
  let ?t2 = "map ?h ((order_desc snd) (group_by (\<lambda>row. p_Name (fst (fst row))) (length) (filter (\<lambda>row :: (provider \<times> food_listing) \<times> claim. (p_City (fst (fst row)) = Some X \<or> p_City (fst (fst row)) = Some Y) \<and> Status (snd row) = Some ''Completed'') ?rows)))"
  have r1: "run_report Top_providers_successful_claims st (f\<lparr>sel_cities := Some [X]\<rparr>) = Inr ?t1"
    by (simp add: top_providers_successful_claims_eq on_rows_def counted_def selected_one truthy_def conj_commute)
  have r2: "run_report Top_providers_successful_claims st (f\<lparr>sel_cities := Some [X, Y]\<rparr>) = Inr ?t2"
    by (simp add: top_providers_successful_claims_eq on_rows_def counted_def selected_two truthy_def conj_commute)
  have k: "fst ` set ?t1 \<subseteq> fst ` set ?t2"
    by (rule grouped_report_keys [where ord = "order_desc snd" and h = ?h and kf = "\<lambda>k. [k]"]) (simp_all add: set_order_desc)
  from r1 r2 k show ?thesis by simp
qed

lemma claim_status_distribution_monotone:
  "\<exists>t1 t2. run_report Claim_status_distribution st (f\<lparr>sel_cities := Some [X]\<rparr>) = Inr t1
         \<and> run_report Claim_status_distribution st (f\<lparr>sel_cities := Some [X, Y]\<rparr>) = Inr t2
         \<and> fst ` set t1 \<subseteq> fst ` set t2
         \<and> (case city_column Claim_status_distribution of None \<Rightarrow> True | Some i \<Rightarrow> set t1 \<subseteq> of_city i X t2)"
proof -
  let ?h = "\<lambda>kv :: sql_text \<times> nat. ([fst kv], Count (snd kv))"
  let ?rows = "inner_join (claims st) (receivers st) (\<lambda>c r. c_Receiver_ID c = Receiver_ID r)"
  let ?t1 = "map ?h ((\<lambda>xs. xs) (group_by (\<lambda>row. Status (fst row)) (length) (filter (\<lambda>row :: claim \<times> receiver. r_City (snd row) = Some X \<and> True) ?rows)))"
  let ?t2 = "map ?h ((\<lambda>xs. xs) (group_by (\<lambda>row. Status (fst row)) (length) (filter (\<lambda>row :: claim \<times> receiver. (r_City (snd row) = Some X \<or> r_City (snd row) = Some Y) \<and> True) ?rows)))"
  have r1: "run_report Claim_status_distribution st (f\<lparr>sel_cities := Some [X]\<rparr>) = Inr ?t1"
    by (simp add: claim_status_distribution_eq on_rows_def counted_def selected_one truthy_def)
  have r2: "run_report Claim_status_distribution st (f\<lparr>sel_cities := Some [X, Y]\<rparr>) = Inr ?t2"
    by (simp add: claim_status_distribution_eq on_rows_def counted_def selected_two truthy_def)
  have k: "fst ` set ?t1 \<subseteq> fst ` set ?t2"
    by (rule grouped_report_keys [where ord = "\<lambda>xs. xs" and h = ?h and kf = "\<lambda>k. [k]"]) simp_all
  from r1 r2 k show ?thesis by simp
qed

lemma avg_quantity_per_receiver_monotone:
  "\<exists>t1 t2. run_report Avg_quantity_per_receiver st (f\<lparr>sel_cities := Some [X]\<rparr>) = Inr t1
         \<and> run_report Avg_quantity_per_receiver st (f\<lparr>sel_cities := Some [X, Y]\<rparr>) = Inr t2
         \<and> fst ` set t1 \<subseteq> fst ` set t2
         \<and> (case city_column Avg_quantity_per_receiver of None \<Rightarrow> True | Some i \<Rightarrow> set t1 \<subseteq> of_city i X t2)"
proof -
  let ?h = "\<lambda>kv :: sql_text \<times> rat. ([fst kv], Average (snd kv))"
  let ?rows = "inner_join (inner_join (receivers st) (claims st) (\<lambda>r c. Receiver_ID r = c_Receiver_ID c)) (food_listings st) (\<lambda>rc f. c_Food_ID (snd rc) = Food_ID f)"
  let ?t1 = "map ?h ((order_desc snd) (group_by (\<lambda>row. r_Name (fst (fst row))) (\<lambda>g. sql_avg (map (\<lambda>row. Quantity (snd row)) g)) (filter (\<lambda>row :: (receiver \<times> claim) \<times> food_listing. r_City (fst (fst row)) = Some X \<and> True) ?rows)))"
  let ?t2 = "map ?h ((order_desc snd) (group_by (\<lambda>row. r_Name (fst (fst row))) (\<lambda>g. sql_avg (map (\<lambda>row. Quantity (snd row)) g)) (filter (\<lambda>row :: (receiver \<times> claim) \<times> food_listing. (r_City (fst (fst row)) = Some X \<or> r_City (fst (fst row)) = Some Y) \<and> True) ?rows)))"
  have r1: "run_report Avg_quantity_per_receiver st (f\<lparr>sel_cities := Some [X]\<rparr>) = Inr ?t1"
    by (simp add: avg_quantity_per_receiver_eq on_rows_def counted_def selected_one truthy_def)
  have r2: "run_report Avg_quantity_per_receiver st (f\<lparr>sel_cities := Some [X, Y]\<rparr>) = Inr ?t2"
    by (simp add: avg_quantity_per_receiver_eq on_rows_def counted_def selected_two truthy_def)
  have k: "fst ` set ?t1 \<subseteq> fst ` set ?t2"
    by (rule grouped_report_keys [where ord = "order_desc snd" and h = ?h and kf = "\<lambda>k. [k]"]) (simp_all add: set_order_desc)
  from r1 r2 k show ?thesis by simp
qed

lemma most_claimed_meal_type_monotone:
  "\<exists>t1 t2. run_report Most_claimed_meal_type st (f\<lparr>sel_cities := Some [X]\<rparr>) = Inr t1
         \<and> run_report Most_claimed_meal_type st (f\<lparr>sel_cities := Some [X, Y]\<rparr>) = Inr t2
         \<and> fst ` set t1 \<subseteq> fst ` set t2
         \<and> (case city_column Most_claimed_meal_type of None \<Rightarrow> True | Some i \<Rightarrow> set t1 \<subseteq> of_city i X t2)"
proof -
  let ?h = "\<lambda>kv :: sql_text \<times> nat. ([fst kv], Count (snd kv))"
  let ?rows = "inner_join (inner_join (food_listings st) (claims st) (\<lambda>f c. Food_ID f = c_Food_ID c)) (receivers st) (\<lambda>fc r. c_Receiver_ID (snd fc) = Receiver_ID r)"
  let ?t1 = "map ?h ((order_desc snd) (group_by (\<lambda>row. Meal_Type (fst (fst row))) (length) (filter (\<lambda>row :: (food_listing \<times> claim) \<times> receiver. r_City (snd row) = Some X \<and> True) ?rows)))"
  let ?t2 = "map ?h ((order_desc snd) (group_by (\<lambda>row. Meal_Type (fst (fst row))) (length) (filter (\<lambda>row :: (food_listing \<times> claim) \<times> receiver. (r_City (snd row) = Some X \<or> r_City (snd row) = Some Y) \<and> True) ?rows)))"
  have r1: "run_report Most_claimed_meal_type st (f\<lparr>sel_cities := Some [X]\<rparr>) = Inr ?t1"
    by (simp add: most_claimed_meal_type_eq on_rows_def counted_def selected_one truthy_def)
  have r2: "run_report Most_claimed_meal_type st (f\<lparr>sel_cities := Some [X, Y]\<rparr>) = Inr ?t2"
    by (simp add: most_claimed_meal_type_eq on_rows_def counted_def selected_two truthy_def)
  have k: "fst ` set ?t1 \<subseteq> fst ` set ?t2"
    by (rule grouped_report_keys [where ord = "order_desc snd" and h = ?h and kf = "\<lambda>k. [k]"]) (simp_all add: set_order_desc)
  from r1 r2 k show ?thesis by simp
qed

lemma total_quantity_per_provider_monotone:
  "\<exists>t1 t2. run_report Total_quantity_per_provider st (f\<lparr>sel_cities := Some [X]\<rparr>) = Inr t1
         \<and> run_report Total_quantity_per_provider st (f\<lparr>sel_cities := Some [X, Y]\<rparr>) = Inr t2
         \<and> fst ` set t1 \<subseteq> fst ` set t2
         \<and> (case city_column Total_quantity_per_provider of None \<Rightarrow> True | Some i \<Rightarrow> set t1 \<subseteq> of_city i X t2)"
proof -
  let ?h = "\<lambda>kv :: sql_text \<times> int option. ([fst kv], Total (snd kv))"
  let ?rows = "inner_join (providers st) (food_listings st) (\<lambda>p f. Provider_ID p = f_Provider_ID f)"
  let ?t1 = "map ?h ((order_desc snd) (group_by (\<lambda>row. p_Name (fst row)) (\<lambda>g. sql_sum (map (\<lambda>row. Quantity (snd row)) g)) (filter (\<lambda>row :: provider \<times> food_listing. p_City (fst row) = Some X \<and> True) ?rows)))"
  let ?t2 = "map ?h ((order_desc snd) (group_by (\<lambda>row. p_Name (fst row)) (\<lambda>g. sql_sum (map (\<lambda>row. Quantity (snd row)) g)) (filter (\<lambda>row :: provider \<times> food_listing. (p_City (fst row) = Some X \<or> p_City (fst row) = Some Y) \<and> True) ?rows)))"
  have r1: "run_report Total_quantity_per_provider st (f\<lparr>sel_cities := Some [X]\<rparr>) = Inr ?t1"
    by (simp add: total_quantity_per_provider_eq on_rows_def counted_def selected_one truthy_def)
  have r2: "run_report Total_quantity_per_provider st (f\<lparr>sel_cities := Some [X, Y]\<rparr>) = Inr ?t2"
    by (simp add: total_quantity_per_provider_eq on_rows_def counted_def selected_two truthy_def)
  have k: "fst ` set ?t1 \<subseteq> fst ` set ?t2"
    by (rule grouped_report_keys [where ord = "order_desc snd" and h = ?h and kf = "\<lambda>k. [k]"]) (simp_all add: set_order_desc)
  from r1 r2 k show ?thesis by simp
qed

lemma cities_with_most_claims_monotone:
  "\<exists>t1 t2. run_report Cities_with_most_claims st (f\<lparr>sel_cities := Some [X]\<rparr>) = Inr t1
         \<and> run_report Cities_with_most_claims st (f\<lparr>sel_cities := Some [X, Y]\<rparr>) = Inr t2
         \<and> fst ` set t1 \<subseteq> fst ` set t2
         \<and> (case city_column Cities_with_most_claims of None \<Rightarrow> True | Some i \<Rightarrow> set t1 \<subseteq> of_city i X t2)"
proof -
  let ?h = "\<lambda>kv :: sql_text \<times> nat. ([fst kv], Count (snd kv))"
  let ?rows = "inner_join (receivers st) (claims st) (\<lambda>r c. Receiver_ID r = c_Receiver_ID c)"
  let ?t1 = "map ?h ((order_desc snd) (group_by (\<lambda>row. r_City (fst row)) (length) (filter (\<lambda>row :: receiver \<times> claim. r_City (fst row) = Some X \<and> True) ?rows)))"
  let ?t2 = "map ?h ((order_desc snd) (group_by (\<lambda>row. r_City (fst row)) (length) (filter (\<lambda>row :: receiver \<times> claim. (r_City (fst row) = Some X \<or> r_City (fst row) = Some Y) \<and> True) ?rows)))"
  have r1: "run_report Cities_with_most_claims st (f\<lparr>sel_cities := Some [X]\<rparr>) = Inr ?t1"
    by (simp add: cities_with_most_claims_eq on_rows_def counted_def selected_one truthy_def)
  have r2: "run_report Cities_with_most_claims st (f\<lparr>sel_cities := Some [X, Y]\<rparr>) = Inr ?t2"
    by (simp add: cities_with_most_claims_eq on_rows_def counted_def selected_two truthy_def)
  have k: "fst ` set ?t1 \<subseteq> fst ` set ?t2"
    by (rule grouped_report_keys [where ord = "order_desc snd" and h = ?h and kf = "\<lambda>k. [k]"]) (simp_all add: set_order_desc)
  have c: "set ?t1 \<subseteq> of_city 0 X ?t2"
    by (rule grouped_report_rows [where ord = "order_desc snd" and h = ?h and g = "\<lambda>k. k"]) (simp_all add: set_order_desc)
  from r1 r2 k c show ?thesis by simp
qed


lemma provider_contacts_monotone:
  "\<exists>t1 t2. run_report Provider_contacts st (f\<lparr>sel_cities := Some [X]\<rparr>) = Inr t1
         \<and> run_report Provider_contacts st (f\<lparr>sel_cities := Some [X, Y]\<rparr>) = Inr t2
         \<and> fst ` set t1 \<subseteq> fst ` set t2
         \<and> (case city_column Provider_contacts of None \<Rightarrow> True | Some i \<Rightarrow> set t1 \<subseteq> of_city i X t2)"
proof -
  let ?h = "\<lambda>p. ([p_Name p, p_City p, p_Contact p], No_aggregate)"
  let ?t1 = "map ?h (filter (\<lambda>p. p_City p = Some X) (providers st))"
  let ?t2 = "map ?h (filter (\<lambda>p. p_City p = Some X \<or> p_City p = Some Y) (providers st))"
  have r1: "run_report Provider_contacts st (f\<lparr>sel_cities := Some [X]\<rparr>) = Inr ?t1"
    by (simp add: provider_contacts_eq on_rows_def selected_one comp_def)
  have r2: "run_report Provider_contacts st (f\<lparr>sel_cities := Some [X, Y]\<rparr>) = Inr ?t2"
    by (simp add: provider_contacts_eq on_rows_def selected_two comp_def)
  have "set ?t1 \<subseteq> set ?t2"
    by auto
  then have k: "fst ` set ?t1 \<subseteq> fst ` set ?t2"
    by (rule image_mono)
  have c: "set ?t1 \<subseteq> of_city 1 X ?t2"
    by (auto simp: of_city_def)
  from r1 r2 k c show ?thesis by simp
qed


section \<open>Facts about the session\<close>

lemma load_table_db: "db (snd (load_table q s)) = db s"
  by (simp add: load_table_def Let_def split: option.splits)

lemma load_table_cache_other: "q' \<noteq> q \<Longrightarrow> cache (snd (load_table q s)) q' = cache s q'"
  by (simp add: load_table_def Let_def split: option.splits)

lemma load_table_frame:
  "fst (load_table q s) = (case cache s q of Some df \<Rightarrow> df | None \<Rightarrow> read_sql q (db s))"
  by (simp add: load_table_def Let_def split: option.splits)

lemma loaded_db: "db (loaded s) = db s"
  by (simp add: loaded_def load_table_db)

lemma loaded_cache_next:
  "cache (loaded s) Q_next_provider_id = cache s Q_next_provider_id"
  "cache (loaded s) Q_next_receiver_id = cache s Q_next_receiver_id"
  "cache (loaded s) Q_next_claim_id = cache s Q_next_claim_id"
  by (simp_all add: loaded_def load_table_cache_other)

lemma rerun_eq:
  "rerun gen a s =
     crud gen (fst (load_table Q_providers s)) (fst (load_table Q_receivers s))
       (fst (load_table Q_food_listings s)) a (loaded s)"
proof -
  have r: "fst (load_table Q_receivers (snd (load_table Q_providers s))) = fst (load_table Q_receivers s)"
    by (simp add: load_table_frame load_table_db load_table_cache_other cong: option.case_cong)
  have f: "fst (load_table Q_food_listings (snd (load_table Q_receivers (snd (load_table Q_providers s)))))
             = fst (load_table Q_food_listings s)"
    by (simp add: load_table_frame load_table_db load_table_cache_other cong: option.case_cong)
  show ?thesis
    by (simp add: rerun_def loaded_def case_prod_beta Let_def r f)
qed

lemma sql_max_eq: "sql_max ids = (if ids = [] then None else Some (Max (set ids)))"
  by (induction ids) (auto simp: max_def Max_insert2 split: option.splits)

lemma next_key_query: "coalesce (sql_max ids) 0 + 1 = next_key ids"
  by (simp add: sql_max_eq coalesce_def next_key_def)

lemma next_id_fresh:
  assumes "cache s q = None"
  shows "next_id_of (fst (load_table q s)) = next_id_of (read_sql q (db s))"
    and "db (snd (load_table q s)) = db s"
  using assms by (simp_all add: load_table_def Let_def)

lemma submit_issued: "issued (fst (submit gen stmt s)) = Some stmt"
  by (simp add: submit_def split: sum.splits)


lemma load_next_after_snapshots:
  "fst (load_table Q_next_provider_id (loaded s)) = fst (load_table Q_next_provider_id s)"
  "fst (load_table Q_next_receiver_id (loaded s)) = fst (load_table Q_next_receiver_id s)"
  "fst (load_table Q_next_claim_id (loaded s)) = fst (load_table Q_next_claim_id s)"
  by (simp_all add: load_table_frame loaded_cache_next loaded_db cong: option.case_cong)

lemma add_provider_issued:
  assumes "strip name \<noteq> []" "strip city \<noteq> []"
  shows "issued (fst (rerun gen (Add_provider name ptype address city contact) s))
           = Some (Insert_provider (next_id_of (fst (load_table Q_next_provider_id s)))
                     (strip name) ptype (strip address) (strip city) (strip contact))"
  using assms
  by (simp add: rerun_eq case_prod_beta Let_def submit_issued load_next_after_snapshots)

lemma add_receiver_issued:
  assumes "strip name \<noteq> []" "strip city \<noteq> []"
  shows "issued (fst (rerun gen (Add_receiver name rtype city contact) s))
           = Some (Insert_receiver (next_id_of (fst (load_table Q_next_receiver_id s)))
                     (strip name) rtype (strip city) (strip contact))"
  using assms
  by (simp add: rerun_eq case_prod_beta Let_def submit_issued load_next_after_snapshots)

lemma add_claim_issued:
  assumes "food_id \<in> set (food_ids (fst (load_table Q_food_listings s)))"
    and "receiver_id \<in> set (receiver_ids (fst (load_table Q_receivers s)))"
  shows "issued (fst (rerun gen (Add_claim food_id receiver_id status timestamp) s))
           = Some (Insert_claim (next_id_of (fst (load_table Q_next_claim_id s))) food_id receiver_id
                     status timestamp)"
  using assms
  by (simp add: rerun_eq case_prod_beta Let_def submit_issued load_next_after_snapshots)

lemma next_id_evaluated:
  "cache s Q_next_provider_id = None \<Longrightarrow>
     next_id_of (fst (load_table Q_next_provider_id s)) = next_key (map Provider_ID (providers (db s)))"
  "cache s Q_next_receiver_id = None \<Longrightarrow>
     next_id_of (fst (load_table Q_next_receiver_id s)) = next_key (map Receiver_ID (receivers (db s)))"
  "cache s Q_next_claim_id = None \<Longrightarrow>
     next_id_of (fst (load_table Q_next_claim_id s)) = next_key (map Claim_ID (claims (db s)))"
  by (simp_all add: load_table_frame next_key_query)

lemma add_food_no_key:
  "(case issued (fst (rerun gen
            (Add_food food_name qty expiry provider_id location provider_type food_type meal_type) s)) of
      None \<Rightarrow> True
    | Some stmt \<Rightarrow> assigned_key stmt = None)"
  by (simp add: rerun_eq submit_issued rejected_def)

lemma strip_examples:
  "strip ''A'' = ''A''" "strip ''B'' = ''B''" "strip ''Road 1'' = ''Road 1''" "strip ''Road 2'' = ''Road 2''"
  "strip ''Delhi'' = ''Delhi''" "strip ''Pune'' = ''Pune''" "strip ''11'' = ''11''" "strip ''22'' = ''22''"
  "strip ''Dal'' = ''Dal''"
  by (simp_all add: strip_def is_space_def)

lemma first_provider_run:
  "rerun next_food_id (Add_provider ''A'' ''Restaurant'' ''Road 1'' ''Delhi'' ''11'') (fresh empty_store)
     = (\<lparr>issued = Some (Insert_provider 1 ''A'' ''Restaurant'' ''Road 1'' ''Delhi'' ''11''), outcome = Done\<rparr>,
        after_first_provider)"
  by (simp add: after_first_provider_def rerun_def load_table_def Let_def fresh_def empty_store_def
        strip_examples submit_def coalesce_def)

lemma after_first_provider_state:
  "map Provider_ID (providers (db after_first_provider)) = [1]"
  "cache after_first_provider Q_providers = Some (Provider_rows [])"
  "cache after_first_provider Q_next_provider_id = Some (Scalar_rows [1])"
  by (simp_all add: after_first_provider_def rerun_def load_table_def Let_def fresh_def empty_store_def
        strip_examples submit_def coalesce_def)

lemma second_provider_run:
  "rerun next_food_id (Add_provider ''B'' ''Supermarket'' ''Road 2'' ''Pune'' ''22'') after_first_provider
     = (\<lparr>issued = Some (Insert_provider 1 ''B'' ''Supermarket'' ''Road 2'' ''Pune'' ''22''),
         outcome = Failed (Duplicate_key 1)\<rparr>, loaded after_first_provider)"
proof -
  have c: "cache (loaded after_first_provider) Q_next_provider_id = Some (Scalar_rows [1])"
    by (simp add: loaded_cache_next after_first_provider_state)
  have "set (map Provider_ID (providers (db (loaded after_first_provider)))) = {1}"
    by (simp only: loaded_db after_first_provider_state) simp
  then have d: "Provider_ID ` set (providers (db (loaded after_first_provider))) = {1}"
    by simp
  show ?thesis
    by (simp add: rerun_eq strip_examples load_table_def c submit_def d)
qed


section \<open>The fragment is the conjunction of the active dimensions\<close>

text \<open>
  Claim C1. For every list of filter dimensions (for the five of the dashboard in
  particular) whose columns exist on the join path and whose parameter names are distinct,
  the fragment built by \<open>_in_clause\<close> and \<open>_and_join\<close> is the empty string when no dimension
  has a selection, and otherwise \<open>WHERE\<close> followed by one \<open>column IN %(name)s\<close> clause per
  dimension with a selection, joined by \<open>AND\<close>; the store accepts the fragment with the
  bound parameters, and a row satisfies it exactly when, for every dimension with a
  selection, the row's value in the bound column is one of the selected values.
\<close>

theorem filter_fragment_is_conjunction:
  assumes "well_formed cols ds"
  shows "fst (where_clause ds) =
           (if active ds = [] then []
            else '' WHERE '' @ join_str '' AND '' (map clause_text (active ds)))
       \<and> compile_where cols (fst (where_clause ds)) (snd (where_clause ds)) = Inr (matches cols ds)
       \<and> (\<forall>r. matches cols ds r \<longleftrightarrow>
            (\<forall>(col, vals, name) \<in> set ds. truthy vals \<longrightarrow>
               (\<exists>acc s. cols col = Some acc \<and> acc r = Some s \<and> s \<in> set (tuple vals))))"
proof (intro conjI allI)
  have ne: "filter (\<lambda>c. c \<noteq> []) (map clause_text (active ds)) = map clause_text (active ds)"
    by (induction ds) (auto simp: clause_text_def active_def)
  show "fst (where_clause ds) =
           (if active ds = [] then []
            else '' WHERE '' @ join_str '' AND '' (map clause_text (active ds)))"
    unfolding where_clause_text and_join_def Let_def ne by simp
  show "compile_where cols (fst (where_clause ds)) (snd (where_clause ds)) = Inr (matches cols ds)"
    by (rule compile_where_clause [OF assms])
  show "matches cols ds r \<longleftrightarrow>
     (\<forall>(col, vals, name) \<in> set ds. truthy vals \<longrightarrow>
        (\<exists>acc s. cols col = Some acc \<and> acc r = Some s \<and> s \<in> set (tuple vals)))" for r
    by (rule matches_iff)
qed

theorem filter_fragment_is_conjunction_witness:
  "well_formed example_columns example_dimensions
   \<and> fst (where_clause example_dimensions)
        = '' WHERE r.City IN %(cities)s AND f.Food_Type IN %(ftypes)s AND c.Status IN %(cstats)s''
   \<and> compile_where example_columns (fst (where_clause example_dimensions))
         (snd (where_clause example_dimensions))
        = Inr (matches example_columns example_dimensions)
   \<and> fst (where_clause [(''City'', None, ''cities''), (''Type'', Some [], ''ptypes'')]) = []"
proof -
  have wf: "well_formed example_columns example_dimensions"
    by (simp add: well_formed_def example_columns_def example_dimensions_def join_columns_def
          aliased_def food_listings_columns_def claims_columns_def receivers_columns_def)
  have wf2: "well_formed providers_columns [(''City'', None, ''cities''), (''Type'', Some [], ''ptypes'')]"
    by (simp add: well_formed_def providers_columns_def)
  have a: "active example_dimensions =
             [(''r.City'', Some [''Delhi'', ''Pune''], ''cities''),
              (''f.Food_Type'', Some [''Vegan''], ''ftypes''),
              (''c.Status'', Some [''Completed''], ''cstats'')]"
    by (simp add: active_def example_dimensions_def truthy_def)
  have b: "active [(''City'', None, ''cities''), (''Type'', Some [], ''ptypes'')] = []"
    by (simp add: active_def truthy_def)
  note t1 = filter_fragment_is_conjunction [OF wf]
  note t2 = filter_fragment_is_conjunction [OF wf2]
  have 1: "fst (where_clause example_dimensions)
        = '' WHERE r.City IN %(cities)s AND f.Food_Type IN %(ftypes)s AND c.Status IN %(cstats)s''"
    using conjunct1 [OF t1] unfolding a by (simp add: clause_text_def)
  have 2: "compile_where example_columns (fst (where_clause example_dimensions))
         (snd (where_clause example_dimensions))
        = Inr (matches example_columns example_dimensions)"
    by (rule conjunct1 [OF conjunct2 [OF t1]])
  have 3: "fst (where_clause [(''City'', None, ''cities''), (''Type'', Some [], ''ptypes'')]) = []"
    using conjunct1 [OF t2] unfolding b by simp
  show ?thesis
    by (intro conjI) (rule wf 1 2 3)+
qed


section \<open>The query text does not depend on the filter values\<close>

text \<open>
  Claim C2. Two assignments of filter values that agree on which dimensions have a
  selection give the same fragment text: the text is determined by the columns, the
  parameter names and which selections are non-empty. The values are carried by the
  bound-parameter mapping alone, whose keys are the parameter names of the dimensions with
  a selection, each bound to the tuple of its values (one name per clause, the names being
  distinct).
\<close>

theorem query_text_independent_of_values:
  assumes "map shape ds = map shape ds'"
    and "distinct (map (\<lambda>(col, vals, name). name) ds)"
  shows "fst (where_clause ds) = fst (where_clause ds')
       \<and> dom (snd (where_clause ds)) = set (map (\<lambda>(col, vals, name). name) (active ds))
       \<and> (\<forall>(col, vals, name) \<in> set (active ds). snd (where_clause ds) name = Some (tuple vals))"
proof (intro conjI)
  show "fst (where_clause ds) = fst (where_clause ds')"
    unfolding where_clause_text using same_shape_clauses [OF assms(1)] by simp
  show "dom (snd (where_clause ds)) = set (map (\<lambda>(col, vals, name). name) (active ds))"
    by (rule where_clause_domain)
  show "\<forall>(col, vals, name) \<in> set (active ds). snd (where_clause ds) name = Some (tuple vals)"
    using where_clause_params [OF assms(2)] by (auto simp: active_def)
qed


theorem query_text_independent_of_values_witness:
  "map shape [(''City'', Some [''Delhi''], ''cities''), (''Type'', None, ''ptypes'')]
     = map shape [(''City'', Some [''x') OR 1=1 -- '', ''Pune''], ''cities''), (''Type'', Some [], ''ptypes'')]
   \<and> fst (where_clause [(''City'', Some [''Delhi''], ''cities''), (''Type'', None, ''ptypes'')])
     = fst (where_clause [(''City'', Some [''x') OR 1=1 -- '', ''Pune''], ''cities''), (''Type'', Some [], ''ptypes'')])
   \<and> dom (snd (where_clause [(''City'', Some [''Delhi''], ''cities''), (''Type'', None, ''ptypes'')]))
     = {''cities''}"
proof -
  have s: "map shape [(''City'', Some [''Delhi''], ''cities''), (''Type'', None, ''ptypes'')]
     = map shape [(''City'', Some [''x') OR 1=1 -- '', ''Pune''], ''cities''), (''Type'', Some [], ''ptypes'')]"
    by (simp add: shape_def truthy_def)
  have d: "distinct (map (\<lambda>(col, vals, name). name)
             [(''City'', Some [''Delhi''], ''cities''), (''Type'', None :: string list option, ''ptypes'')])"
    by simp
  note t = query_text_independent_of_values [OF s d]
  have a: "active [(''City'', Some [''Delhi''], ''cities''), (''Type'', None, ''ptypes'')]
             = [(''City'', Some [''Delhi''], ''cities'')]"
    by (simp add: active_def truthy_def)
  have 3: "dom (snd (where_clause [(''City'', Some [''Delhi''], ''cities''), (''Type'', None, ''ptypes'')]))
     = {''cities''}"
    using conjunct1 [OF conjunct2 [OF t]] unfolding a by simp
  show ?thesis
    by (intro conjI) (rule s conjunct1 [OF t] 3)+
qed


section \<open>Results when nothing matches\<close>

lemma reports_empty_on_empty_store: "run_report rep empty_store f = Inr []"
  by (cases rep)
     (simp_all add: providers_per_city_eq receivers_per_city_eq top_provider_types_eq
        provider_contacts_eq top_receivers_eq city_highest_listings_eq common_food_types_eq
        claims_per_food_eq top_providers_successful_claims_eq claim_status_distribution_eq
        avg_quantity_per_receiver_eq most_claimed_meal_type_eq total_quantity_per_provider_eq
        cities_with_most_claims_eq empty_store_def inner_join_def group_by_def order_desc_def
        on_rows_def counted_def)

lemma kpis_zero_when_nothing_matches:
  "(filter (\<lambda>p. selected (p_City p) cities \<and> selected (p_Type p) provider_types) (providers st) = []
      \<longrightarrow> count_providers st cities provider_types = Inr 0)
   \<and> (filter (\<lambda>r. selected (r_City r) cities) (receivers st) = []
      \<longrightarrow> count_receivers st cities = Inr 0)
   \<and> (filter (\<lambda>f. selected (Location f) cities \<and> selected (Provider_Type f) provider_types
                 \<and> selected (Food_Type f) food_types \<and> selected (Meal_Type f) meal_types)
         (food_listings st) = []
      \<longrightarrow> total_food_quantity_filtered st cities provider_types food_types meal_types = Inr 0)"
  by (simp add: count_providers_eq count_receivers_eq total_food_quantity_filtered_eq
        coalesce_def sql_sum_def)

text \<open>
  Claim C3. On an empty store every filtered report returns an empty table and the four
  KPI queries return 0, with any filters: the counts are \<open>COUNT(*)\<close> and the filtered
  quantity is wrapped in \<open>COALESCE\<close>. The unfiltered total, kept among the reports, is a
  bare \<open>SUM\<close>: on the empty table of listings its single cell is \<open>NULL\<close>, where its
  filtered sibling returns 0.
\<close>

theorem unfiltered_total_is_null_on_empty_table:
  "total_food_quantity empty_store = None
   \<and> total_food_quantity_filtered empty_store cities provider_types food_types meal_types = Inr 0
   \<and> count_providers empty_store cities provider_types = Inr 0
   \<and> count_receivers empty_store cities = Inr 0
   \<and> count_claims empty_store cities claim_statuses = Inr 0
   \<and> run_report rep empty_store f = Inr []"
  by (simp add: total_food_quantity_def total_food_quantity_filtered_eq count_providers_eq
        count_receivers_eq count_claims_eq empty_store_def sql_sum_def coalesce_def inner_join_def
        reports_empty_on_empty_store [unfolded empty_store_def])


section \<open>Keys assigned on create\<close>

text \<open>
  Claim C4, as amended. For Provider, Receiver and Claim, a create whose validation passes
  sends an insert that lists the primary key, and the key is the value that \<open>load_table\<close>
  returns for the next-key query of the table; the store is not asked to generate it. When
  \<open>load_table\<close> evaluates the query on the store (it holds no result of an earlier call),
  that value is the largest existing key plus one, or 1 for an empty table. For Food
  listing the insert lists no key: the key is left to the store.
\<close>

theorem create_assigns_next_key_except_food:
  "(strip name \<noteq> [] \<and> strip city \<noteq> [] \<longrightarrow>
      issued (fst (rerun gen (Add_provider name ptype address city contact) s))
        = Some (Insert_provider (next_id_of (fst (load_table Q_next_provider_id s)))
                  (strip name) ptype (strip address) (strip city) (strip contact)))
   \<and> (strip name \<noteq> [] \<and> strip city \<noteq> [] \<longrightarrow>
      issued (fst (rerun gen (Add_receiver name rtype city contact) s))
        = Some (Insert_receiver (next_id_of (fst (load_table Q_next_receiver_id s)))
                  (strip name) rtype (strip city) (strip contact)))
   \<and> (food_id \<in> set (food_ids (fst (load_table Q_food_listings s)))
        \<and> receiver_id \<in> set (receiver_ids (fst (load_table Q_receivers s))) \<longrightarrow>
      issued (fst (rerun gen (Add_claim food_id receiver_id status timestamp) s))
        = Some (Insert_claim (next_id_of (fst (load_table Q_next_claim_id s))) food_id receiver_id
                  status timestamp))
   \<and> (cache s Q_next_provider_id = None \<longrightarrow>
        next_id_of (fst (load_table Q_next_provider_id s))
          = next_key (map Provider_ID (providers (db s))))
   \<and> (cache s Q_next_receiver_id = None \<longrightarrow>
        next_id_of (fst (load_table Q_next_receiver_id s))
          = next_key (map Receiver_ID (receivers (db s))))
   \<and> (cache s Q_next_claim_id = None \<longrightarrow>
        next_id_of (fst (load_table Q_next_claim_id s))
          = next_key (map Claim_ID (claims (db s))))
   \<and> (case issued (fst (rerun gen
            (Add_food food_name qty expiry provider_id location provider_type food_type meal_type) s)) of
        None \<Rightarrow> True
      | Some stmt \<Rightarrow> assigned_key stmt = None)"
  by (simp add: add_provider_issued add_receiver_issued add_claim_issued next_id_evaluated
        add_food_no_key)

theorem create_assigns_next_key_except_food_witness:
  "strip '' C '' \<noteq> [] \<and> strip ''Agra'' \<noteq> []
   \<and> cache (fresh example_store) Q_next_provider_id = None
   \<and> cache (fresh example_store) Q_next_receiver_id = None
   \<and> cache (fresh example_store) Q_next_claim_id = None
   \<and> 10 \<in> set (food_ids (fst (load_table Q_food_listings (fresh example_store))))
   \<and> 5 \<in> set (receiver_ids (fst (load_table Q_receivers (fresh example_store))))
   \<and> issued (fst (rerun next_food_id (Add_provider '' C '' ''Restaurant'' ''Main Road'' ''Agra'' ''98'')
                (fresh example_store)))
        = Some (Insert_provider 3 ''C'' ''Restaurant'' ''Main Road'' ''Agra'' ''98'')
   \<and> issued (fst (rerun next_food_id (Add_receiver '' C '' ''NGO'' ''Agra'' ''98'') (fresh example_store)))
        = Some (Insert_receiver 7 ''C'' ''NGO'' ''Agra'' ''98'')
   \<and> issued (fst (rerun next_food_id (Add_claim 10 5 ''Pending'' ''2024-01-03 08:00:00'')
                (fresh example_store)))
        = Some (Insert_claim 4 10 5 ''Pending'' ''2024-01-03 08:00:00'')"
proof -
  have h1: "strip '' C '' \<noteq> []" "strip ''Agra'' \<noteq> []"
    by (simp_all add: strip_def is_space_def)
  have h2: "cache (fresh example_store) Q_next_provider_id = None"
    "cache (fresh example_store) Q_next_receiver_id = None"
    "cache (fresh example_store) Q_next_claim_id = None"
    by (simp_all add: fresh_def)
  have h3: "10 \<in> set (food_ids (fst (load_table Q_food_listings (fresh example_store))))"
    "5 \<in> set (receiver_ids (fst (load_table Q_receivers (fresh example_store))))"
    by (simp_all add: load_table_frame fresh_def example_store_def)
  have k: "next_key (map Provider_ID (providers (db (fresh example_store)))) = 3"
    "next_key (map Receiver_ID (receivers (db (fresh example_store)))) = 7"
    "next_key (map Claim_ID (claims (db (fresh example_store)))) = 4"
    by (simp_all add: next_key_def fresh_def example_store_def)
  have s: "strip '' C '' = ''C''" "strip ''Agra'' = ''Agra''" "strip ''Main Road'' = ''Main Road''"
    "strip ''98'' = ''98''"
    by (simp_all add: strip_def is_space_def)
  note t = create_assigns_next_key_except_food [where s = "fresh example_store" and gen = next_food_id
      and name = "'' C ''" and city = "''Agra''" and food_id = 10 and receiver_id = 5]
  from t h2 k
  have n: "next_id_of (fst (load_table Q_next_provider_id (fresh example_store))) = 3"
    "next_id_of (fst (load_table Q_next_receiver_id (fresh example_store))) = 7"
    "next_id_of (fst (load_table Q_next_claim_id (fresh example_store))) = 4"
    by simp_all
  from t h1 h2 h3 show ?thesis
    by (simp add: n s)
qed

text \<open>
  As stated the claim fails in two places. For Food listing the create sends
  \<^verbatim>\<open>INSERT INTO food_listings (Food_Name, ..., Meal_Type)\<close>, where no key is computed. For
  Provider, the second create of a session takes the key from the result \<open>load_table\<close>
  holds from the first: it sends key 1 although the table holds key 1 and the largest key
  plus one is 2.
\<close>

theorem create_key_is_not_max_plus_one:
  "issued (fst (rerun next_food_id
       (Add_food ''Dal'' 5 ''2024-02-01'' 1 ''Delhi'' ''Restaurant'' ''Vegan'' ''Lunch'')
       (fresh example_store)))
     = Some (Insert_food_listing ''Dal'' 5 ''2024-02-01'' 1 ''Restaurant'' ''Delhi'' ''Vegan'' ''Lunch'')
   \<and> assigned_key (Insert_food_listing ''Dal'' 5 ''2024-02-01'' 1 ''Restaurant'' ''Delhi'' ''Vegan'' ''Lunch'')
     = None
   \<and> outcome (fst (rerun next_food_id
       (Add_food ''Dal'' 5 ''2024-02-01'' 1 ''Delhi'' ''Restaurant'' ''Vegan'' ''Lunch'')
       (fresh example_store))) = Done
   \<and> issued (fst (rerun next_food_id (Add_provider ''B'' ''Supermarket'' ''Road 2'' ''Pune'' ''22'')
                after_first_provider))
     = Some (Insert_provider 1 ''B'' ''Supermarket'' ''Road 2'' ''Pune'' ''22'')
   \<and> map Provider_ID (providers (db after_first_provider)) = [1]
   \<and> next_key (map Provider_ID (providers (db after_first_provider))) = 2"
proof -
  have p: "fst (load_table Q_providers (fresh example_store)) = Provider_rows (providers example_store)"
    by (simp add: load_table_frame fresh_def)
  have s: "strip ''Dal'' = ''Dal''" "strip ''Delhi'' = ''Delhi''"
    by (simp_all add: strip_def is_space_def)
  have d: "db (loaded (fresh example_store)) = example_store"
    by (simp add: loaded_db fresh_def)
  have e: "map Provider_ID (providers example_store) = [1, 2]"
    "map Food_ID (food_listings example_store) = [10, 11]"
    by (simp_all add: example_store_def)
  have f: "fst (rerun next_food_id
       (Add_food ''Dal'' 5 ''2024-02-01'' 1 ''Delhi'' ''Restaurant'' ''Vegan'' ''Lunch'')
       (fresh example_store))
     = \<lparr>issued = Some (Insert_food_listing ''Dal'' 5 ''2024-02-01'' 1 ''Restaurant'' ''Delhi'' ''Vegan'' ''Lunch''),
         outcome = Done\<rparr>"
    by (simp add: rerun_eq p s submit_def d e next_food_id_def coalesce_def)
  have k: "next_key (map Provider_ID (providers (db after_first_provider))) = 2"
    by (simp add: after_first_provider_state next_key_def)
  from k show ?thesis
    by (simp add: f second_provider_run after_first_provider_state)
qed


section \<open>Two creates in a row\<close>

text \<open>
  Claim C5. The next-key query of a create goes through the memoised loader, so the second
  create of a session does not read the table again: starting from an empty store, the
  first provider is inserted with key 1, and the second create sends key 1 again, which
  the store rejects as a duplicate; the key is not greater than the existing key 1 and the
  two creates do not get distinct keys.
\<close>

theorem second_create_reuses_first_key:
  "rerun next_food_id (Add_provider ''A'' ''Restaurant'' ''Road 1'' ''Delhi'' ''11'') (fresh empty_store)
     = (\<lparr>issued = Some (Insert_provider 1 ''A'' ''Restaurant'' ''Road 1'' ''Delhi'' ''11''), outcome = Done\<rparr>,
        after_first_provider)
   \<and> map Provider_ID (providers (db after_first_provider)) = [1]
   \<and> fst (rerun next_food_id (Add_provider ''B'' ''Supermarket'' ''Road 2'' ''Pune'' ''22'') after_first_provider)
     = \<lparr>issued = Some (Insert_provider 1 ''B'' ''Supermarket'' ''Road 2'' ''Pune'' ''22''),
        outcome = Failed (Duplicate_key 1)\<rparr>
   \<and> db (snd (rerun next_food_id (Add_provider ''B'' ''Supermarket'' ''Road 2'' ''Pune'' ''22'')
               after_first_provider))
     = db after_first_provider"
  by (simp add: first_provider_run after_first_provider_state second_provider_run loaded_db)


section \<open>KPI totals over a partition of the cities\<close>

text \<open>
  Claim C6, as amended. Let the city sets of the filtered calls be non-empty and pairwise
  disjoint, and let every row of the KPI's table hold a city (not \<open>NULL\<close>) of one of the
  sets in the column the KPI binds the city filter to (for the claim count: receiver keys
  are unique and the receiver of every claim exists and has such a city; a receiver without
  claims may have any city or none). Then the KPI without a city filter is the sum of the
  KPI over the sets, the other filters being the same in all calls.
\<close>

theorem kpi_total_is_sum_over_city_partition:
  "(city_partition cells (map p_City (providers st)) \<longrightarrow>
      total_of (map (\<lambda>cell. count_providers st (Some cell) provider_types) cells)
        = count_providers st None provider_types)
   \<and> (city_partition cells (map r_City (receivers st)) \<longrightarrow>
      total_of (map (\<lambda>cell. count_receivers st (Some cell)) cells) = count_receivers st None)
   \<and> (city_partition cells (claimed_receiver_cities st) \<and> claims_reference_receivers st \<longrightarrow>
      total_of (map (\<lambda>cell. count_claims st (Some cell) claim_statuses) cells)
        = count_claims st None claim_statuses)
   \<and> (city_partition cells (map Location (food_listings st)) \<longrightarrow>
      total_of (map (\<lambda>cell. total_food_quantity_filtered st (Some cell) provider_types food_types meal_types) cells)
        = total_food_quantity_filtered st None provider_types food_types meal_types)"
  using kpi_providers_partition kpi_receivers_partition kpi_claims_partition kpi_quantity_partition
  by blast


theorem kpi_total_is_sum_over_city_partition_witness:
  "city_partition example_cells (map p_City (providers example_store))
   \<and> city_partition example_cells (map r_City (receivers example_store))
   \<and> city_partition example_cells (map Location (food_listings example_store))
   \<and> city_partition example_cells (claimed_receiver_cities idle_receiver_store)
   \<and> claims_reference_receivers idle_receiver_store
   \<and> map r_City (receivers idle_receiver_store) = [Some ''Delhi'', Some ''Pune'', None]
   \<and> total_of (map (\<lambda>cell. count_providers example_store (Some cell) None) example_cells) = Inr 2
   \<and> count_providers example_store None None = Inr 2
   \<and> total_of (map (\<lambda>cell. count_receivers example_store (Some cell)) example_cells) = Inr 2
   \<and> total_of (map (\<lambda>cell. count_claims idle_receiver_store (Some cell) None) example_cells) = Inr 3
   \<and> count_claims idle_receiver_store None None = Inr 3
   \<and> total_of (map (\<lambda>cell. total_food_quantity_filtered example_store (Some cell) None None None) example_cells)
        = Inr 14"
proof -
  have 1: "city_partition example_cells (map p_City (providers example_store))"
    by (simp add: city_partition_def covered_def example_cells_def example_store_def)
  have 2: "city_partition example_cells (map r_City (receivers example_store))"
    by (simp add: city_partition_def covered_def example_cells_def example_store_def)
  have 3: "claims_reference_receivers idle_receiver_store"
    by (simp add: claims_reference_receivers_def idle_receiver_store_def example_store_def)
  have 4: "city_partition example_cells (map Location (food_listings example_store))"
    by (simp add: city_partition_def covered_def example_cells_def example_store_def)
  have c: "claimed_receiver_cities idle_receiver_store = [Some ''Delhi'', Some ''Pune'', Some ''Pune'']"
    by (simp add: claimed_receiver_cities_def inner_join_def idle_receiver_store_def example_store_def)
  have 5: "city_partition example_cells (claimed_receiver_cities idle_receiver_store)"
    unfolding c by (simp add: city_partition_def covered_def example_cells_def)
  have 6: "map r_City (receivers idle_receiver_store) = [Some ''Delhi'', Some ''Pune'', None]"
    by (simp add: idle_receiver_store_def example_store_def)
  note t = kpi_total_is_sum_over_city_partition [where cells = example_cells and st = example_store
      and provider_types = None and claim_statuses = None and food_types = None and meal_types = None]
  note u = kpi_total_is_sum_over_city_partition [where cells = example_cells and st = idle_receiver_store
      and provider_types = None and claim_statuses = None and food_types = None and meal_types = None]
  have 7: "count_providers example_store None None = Inr 2"
    by (simp add: count_providers_eq example_store_def selected_def truthy_def)
  have 8: "count_receivers example_store None = Inr 2"
    by (simp add: count_receivers_eq example_store_def selected_def truthy_def)
  have 9: "count_claims idle_receiver_store None None = Inr 3"
    by (simp add: count_claims_eq idle_receiver_store_def example_store_def selected_def truthy_def)
  have 10: "total_food_quantity_filtered example_store None None None None = Inr 14"
    by (simp add: total_food_quantity_filtered_eq example_store_def selected_def truthy_def
          coalesce_def sql_sum_def)
  from t 1 2 4 7 8 10
  have a: "total_of (map (\<lambda>cell. count_providers example_store (Some cell) None) example_cells) = Inr 2"
    and b: "total_of (map (\<lambda>cell. count_receivers example_store (Some cell)) example_cells) = Inr 2"
    and d: "total_of (map (\<lambda>cell. total_food_quantity_filtered example_store (Some cell) None None None) example_cells)
        = Inr 14"
    by simp_all
  from u 3 5 9
  have e: "total_of (map (\<lambda>cell. count_claims idle_receiver_store (Some cell) None) example_cells) = Inr 3"
    by simp
  show ?thesis
    by (intro conjI) (rule 1 2 3 4 5 6 7 9 a b d e)+
qed

text \<open>
  As stated, for every partition of the cities, the claim fails in two ways. On a store
  with a provider whose city is \<open>NULL\<close>, the cities of the providers are split by the
  single set \<open>{Delhi}\<close>, the filtered count of providers is 1 and the unfiltered count is
  2. On a store with a receiver in Agra and no provider or listing there, the city options
  of the dashboard are split by \<open>{Delhi}\<close>, the filtered count of receivers is 0 and the
  unfiltered count is 1.
\<close>

theorem kpi_sum_fails_off_the_bound_column:
  "list_all (\<lambda>cell. cell \<noteq> []) [[''Delhi'']]
   \<and> disjoint_cells [[''Delhi'']]
   \<and> [s. Some s \<leftarrow> map p_City (providers null_city_store)] = [''Delhi'']
   \<and> total_of (map (\<lambda>cell. count_providers null_city_store (Some cell) None) [[''Delhi'']]) = Inr 1
   \<and> count_providers null_city_store None None = Inr 2
   \<and> all_cities far_receiver_store = {''Delhi''}
   \<and> total_of (map (\<lambda>cell. count_receivers far_receiver_store (Some cell)) [[''Delhi'']]) = Inr 0
   \<and> count_receivers far_receiver_store None = Inr 1"
  by (simp add: count_providers_eq count_receivers_eq null_city_store_def far_receiver_store_def
        all_cities_def selected_def truthy_def tuple_def)


section \<open>Narrowing the city filter\<close>

text \<open>
  Claim C7. For every report, every store, every choice of the other filters and every two
  cities \<open>X\<close> and \<open>Y\<close>: both calls succeed, every grouping key of the result for the
  city set \<open>{X}\<close> is a grouping key of the result for \<open>{X, Y}\<close>, and for the reports
  whose grouping key contains the filtered city column, every row of the result for \<open>{X}\<close>
  is a row of the result for \<open>{X, Y}\<close> in the group of \<open>X\<close>.
\<close>

theorem report_for_one_city_within_report_for_two:
  "\<exists>t1 t2. run_report rep st (f\<lparr>sel_cities := Some [X]\<rparr>) = Inr t1
         \<and> run_report rep st (f\<lparr>sel_cities := Some [X, Y]\<rparr>) = Inr t2
         \<and> fst ` set t1 \<subseteq> fst ` set t2
         \<and> (case city_column rep of None \<Rightarrow> True | Some i \<Rightarrow> set t1 \<subseteq> of_city i X t2)"
proof (cases rep)
  case Providers_per_city
  then show ?thesis using providers_per_city_monotone by simp
next
  case Receivers_per_city
  then show ?thesis using receivers_per_city_monotone by simp
next
  case Top_provider_types
  then show ?thesis using top_provider_types_monotone by simp
next
  case Provider_contacts
  then show ?thesis using provider_contacts_monotone by simp
next
  case Top_receivers
  then show ?thesis using top_receivers_monotone by simp
next
  case City_highest_listings
  then show ?thesis using city_highest_listings_monotone by simp
next
  case Common_food_types
  then show ?thesis using common_food_types_monotone by simp
next
  case Claims_per_food
  then show ?thesis using claims_per_food_monotone by simp
next
  case Top_providers_successful_claims
  then show ?thesis using top_providers_successful_claims_monotone by simp
next
  case Claim_status_distribution
  then show ?thesis using claim_status_distribution_monotone by simp
next
  case Avg_quantity_per_receiver
  then show ?thesis using avg_quantity_per_receiver_monotone by simp
next
  case Most_claimed_meal_type
  then show ?thesis using most_claimed_meal_type_monotone by simp
next
  case Total_quantity_per_provider
  then show ?thesis using total_quantity_per_provider_monotone by simp
next
  case Cities_with_most_claims
  then show ?thesis using cities_with_most_claims_monotone by simp
qed


section \<open>Top providers by successful claims\<close>

text \<open>
  Claim C8. The report always carries the condition \<open>c.Status = 'Completed'\<close>, with or
  without a city filter, and binds the city filter to \<open>p.City\<close>. Its rows are exactly
  the provider names with at least one completed claim (through the provider's listings)
  among the providers of the selected cities, each once, with the number of such claims,
  in descending order of that number; the receivers table has no influence on it.
\<close>

theorem top_providers_count_completed_by_provider_city:
  "fst (top_providers_successful_claims_where cities) =
      (if truthy cities
       then '' WHERE c.Status = 'Completed' AND p.City IN %(cities)s''
       else '' WHERE '' @ completed_condition)
   \<and> (\<exists>t. top_providers_successful_claims st cities = Inr t
          \<and> (\<forall>n k. (n, k) \<in> set t \<longleftrightarrow>
                 0 < k \<and> k = length (filter (\<lambda>row. p_Name (fst (fst row)) = n
                                           \<and> Status (snd row) = Some ''Completed''
                                           \<and> selected (p_City (fst (fst row))) cities)
                                 (inner_join
                                    (inner_join (providers st) (food_listings st)
                                       (\<lambda>p f. Provider_ID p = f_Provider_ID f))
                                    (claims st) (\<lambda>pf c. Food_ID (snd pf) = c_Food_ID c))))
          \<and> distinct (map fst t)
          \<and> sorted (rev (map snd t)))
   \<and> top_providers_successful_claims (st\<lparr>receivers := rs\<rparr>) cities
       = top_providers_successful_claims st cities"
proof (intro conjI)
  show "fst (top_providers_successful_claims_where cities) =
      (if truthy cities
       then '' WHERE c.Status = 'Completed' AND p.City IN %(cities)s''
       else '' WHERE '' @ completed_condition)"
    by (simp add: top_providers_successful_claims_where_def append_clause_def in_clause_def
          and_join_def completed_condition_def)
  show "top_providers_successful_claims (st\<lparr>receivers := rs\<rparr>) cities
       = top_providers_successful_claims st cities"
    by (simp add: top_providers_successful_claims_eq)
  let ?key = "\<lambda>row :: (provider \<times> food_listing) \<times> claim. p_Name (fst (fst row))"
  let ?P = "\<lambda>row :: (provider \<times> food_listing) \<times> claim.
              Status (snd row) = Some ''Completed'' \<and> selected (p_City (fst (fst row))) cities"
  let ?rows = "inner_join
                 (inner_join (providers st) (food_listings st) (\<lambda>p f. Provider_ID p = f_Provider_ID f))
                 (claims st) (\<lambda>pf c. Food_ID (snd pf) = c_Food_ID c)"
  let ?t = "order_desc snd (group_by ?key length (filter ?P ?rows))"
  have 1: "top_providers_successful_claims st cities = Inr ?t"
    by (rule top_providers_successful_claims_eq)
  have 2: "(n, k) \<in> set ?t \<longleftrightarrow> 0 < k \<and> k = length (filter (\<lambda>row. ?key row = n \<and> ?P row) ?rows)" for n k
    unfolding set_order_desc group_by_member key_present filter_key_filter by auto
  have 3: "distinct (map fst ?t)"
    by (simp add: distinct_order_desc group_by_keys)
  have 4: "sorted (rev (map snd ?t))"
    by (rule sorted_order_desc)
  show "\<exists>t. top_providers_successful_claims st cities = Inr t
          \<and> (\<forall>n k. (n, k) \<in> set t \<longleftrightarrow>
                 0 < k \<and> k = length (filter (\<lambda>row. p_Name (fst (fst row)) = n
                                           \<and> Status (snd row) = Some ''Completed''
                                           \<and> selected (p_City (fst (fst row))) cities)
                                 (inner_join
                                    (inner_join (providers st) (food_listings st)
                                       (\<lambda>p f. Provider_ID p = f_Provider_ID f))
                                    (claims st) (\<lambda>pf c. Food_ID (snd pf) = c_Food_ID c))))
          \<and> distinct (map fst t)
          \<and> sorted (rev (map snd t))"
    using 1 2 3 4 by blast
qed


section \<open>Creating a food listing\<close>

text \<open>
  Claim C9. A create of a food listing whose provider id is not among the keys of the
  provider snapshot is rejected as an invalid provider id, no statement is sent and the
  store is unchanged; when the id is in the snapshot and food name and location are not
  empty after trimming, the insert is sent with the trimmed values; when the id is in the
  snapshot and one of the two is empty after trimming, the form is rejected as well and no
  statement is sent. The snapshot is the
  memoised frame when there is one, whatever the store holds by now, and the current table
  otherwise.
\<close>

theorem add_food_checks_provider_snapshot:
  "(provider_id \<notin> set (provider_ids (fst (load_table Q_providers s))) \<longrightarrow>
      fst (rerun gen (Add_food food_name qty expiry provider_id location provider_type food_type meal_type) s)
        = \<lparr>issued = None, outcome = Rejected Invalid_provider_id\<rparr>
      \<and> db (snd (rerun gen
             (Add_food food_name qty expiry provider_id location provider_type food_type meal_type) s))
        = db s)
   \<and> (provider_id \<in> set (provider_ids (fst (load_table Q_providers s)))
        \<and> strip food_name \<noteq> [] \<and> strip location \<noteq> [] \<longrightarrow>
      issued (fst (rerun gen
          (Add_food food_name qty expiry provider_id location provider_type food_type meal_type) s))
        = Some (Insert_food_listing (strip food_name) qty expiry provider_id provider_type
                  (strip location) food_type meal_type))
   \<and> (provider_id \<in> set (provider_ids (fst (load_table Q_providers s)))
        \<and> (strip food_name = [] \<or> strip location = []) \<longrightarrow>
      fst (rerun gen (Add_food food_name qty expiry provider_id location provider_type food_type meal_type) s)
        = \<lparr>issued = None, outcome = Rejected Empty_food_name_or_location\<rparr>
      \<and> db (snd (rerun gen
             (Add_food food_name qty expiry provider_id location provider_type food_type meal_type) s))
        = db s)
   \<and> (cache s Q_providers = Some df \<longrightarrow> fst (load_table Q_providers s) = df)
   \<and> (cache s Q_providers = None \<longrightarrow>
        fst (load_table Q_providers s) = Provider_rows (providers (db s)))"
  by (simp add: rerun_eq rejected_def loaded_db submit_issued load_table_frame)

theorem add_food_checks_provider_snapshot_witness:
  "map Provider_ID (providers (db after_first_provider)) = [1]
   \<and> cache after_first_provider Q_providers = Some (Provider_rows [])
   \<and> 1 \<notin> set (provider_ids (fst (load_table Q_providers after_first_provider)))
   \<and> fst (rerun next_food_id
            (Add_food ''Dal'' 5 ''2024-02-01'' 1 ''Delhi'' ''Restaurant'' ''Vegan'' ''Lunch'')
            after_first_provider)
        = \<lparr>issued = None, outcome = Rejected Invalid_provider_id\<rparr>
   \<and> cache (fresh example_store) Q_providers = None
   \<and> 1 \<in> set (provider_ids (fst (load_table Q_providers (fresh example_store))))
   \<and> strip '' Dal'' \<noteq> [] \<and> strip ''Delhi '' \<noteq> []
   \<and> issued (fst (rerun next_food_id
            (Add_food '' Dal'' 5 ''2024-02-01'' 1 ''Delhi '' ''Restaurant'' ''Vegan'' ''Lunch'')
            (fresh example_store)))
        = Some (Insert_food_listing ''Dal'' 5 ''2024-02-01'' 1 ''Restaurant'' ''Delhi'' ''Vegan'' ''Lunch'')
   \<and> strip [CHR 0xA0, CHR '' '', CHR 0x85] = []
   \<and> fst (rerun next_food_id
            (Add_food [CHR 0xA0, CHR '' '', CHR 0x85] 5 ''2024-02-01'' 1 ''Delhi'' ''Restaurant''
               ''Vegan'' ''Lunch'')
            (fresh example_store))
        = \<lparr>issued = None, outcome = Rejected Empty_food_name_or_location\<rparr>"
proof -
  note a = add_food_checks_provider_snapshot [where s = after_first_provider and gen = next_food_id
      and provider_id = 1 and df = "Provider_rows []" and food_name = "''Dal''" and qty = 5
      and expiry = "''2024-02-01''" and location = "''Delhi''" and provider_type = "''Restaurant''"
      and food_type = "''Vegan''" and meal_type = "''Lunch''"]
  note b = add_food_checks_provider_snapshot [where s = "fresh example_store" and gen = next_food_id
      and provider_id = 1 and food_name = "'' Dal''" and qty = 5
      and expiry = "''2024-02-01''" and location = "''Delhi ''" and provider_type = "''Restaurant''"
      and food_type = "''Vegan''" and meal_type = "''Lunch''"]
  have 1: "map Provider_ID (providers (db after_first_provider)) = [1]"
    and 2: "cache after_first_provider Q_providers = Some (Provider_rows [])"
    by (simp_all add: after_first_provider_state)
  from a 2 have 3: "1 \<notin> set (provider_ids (fst (load_table Q_providers after_first_provider)))"
    by simp
  from a 3 have 4: "fst (rerun next_food_id
            (Add_food ''Dal'' 5 ''2024-02-01'' 1 ''Delhi'' ''Restaurant'' ''Vegan'' ''Lunch'')
            after_first_provider)
        = \<lparr>issued = None, outcome = Rejected Invalid_provider_id\<rparr>"
    by blast
  have 5: "cache (fresh example_store) Q_providers = None"
    by (simp add: fresh_def)
  from b 5 have 6: "1 \<in> set (provider_ids (fst (load_table Q_providers (fresh example_store))))"
    by (simp add: fresh_def example_store_def)
  have 7: "strip '' Dal'' = ''Dal''" "strip ''Delhi '' = ''Delhi''"
    by (simp_all add: strip_def is_space_def)
  from b 6 7 have 8: "issued (fst (rerun next_food_id
            (Add_food '' Dal'' 5 ''2024-02-01'' 1 ''Delhi '' ''Restaurant'' ''Vegan'' ''Lunch'')
            (fresh example_store)))
        = Some (Insert_food_listing ''Dal'' 5 ''2024-02-01'' 1 ''Restaurant'' ''Delhi'' ''Vegan'' ''Lunch'')"
    by simp
  note c = add_food_checks_provider_snapshot [where s = "fresh example_store" and gen = next_food_id
      and provider_id = 1 and food_name = "[CHR 0xA0, CHR '' '', CHR 0x85]" and qty = 5
      and expiry = "''2024-02-01''" and location = "''Delhi''" and provider_type = "''Restaurant''"
      and food_type = "''Vegan''" and meal_type = "''Lunch''"]
  have 9: "strip [CHR 0xA0, CHR '' '', CHR 0x85] = []"
    by (simp add: strip_def is_space_def)
  from c 6 9 have 10: "fst (rerun next_food_id
            (Add_food [CHR 0xA0, CHR '' '', CHR 0x85] 5 ''2024-02-01'' 1 ''Delhi'' ''Restaurant''
               ''Vegan'' ''Lunch'')
            (fresh example_store))
        = \<lparr>issued = None, outcome = Rejected Empty_food_name_or_location\<rparr>"
    by simp
  from 1 2 3 4 5 6 7 8 9 10 show ?thesis by simp
qed


section \<open>Updating a claim\<close>

text \<open>
  Claim C10. The update of a claim sends \<^verbatim>\<open>UPDATE claims SET Status=%s WHERE Claim_ID=%s\<close>:
  the providers, receivers and food listings are unchanged; every claim keeps its key, food
  id, receiver id and timestamp; the status of the claims with the given key becomes the
  new status and every other status is unchanged.
\<close>

theorem claim_update_changes_status_only:
  "providers (db (snd (rerun gen (Update_claim cid new_status) s))) = providers (db s)
   \<and> receivers (db (snd (rerun gen (Update_claim cid new_status) s))) = receivers (db s)
   \<and> food_listings (db (snd (rerun gen (Update_claim cid new_status) s))) = food_listings (db s)
   \<and> map (\<lambda>c. (Claim_ID c, c_Food_ID c, c_Receiver_ID c, Timestamp c))
          (claims (db (snd (rerun gen (Update_claim cid new_status) s))))
       = map (\<lambda>c. (Claim_ID c, c_Food_ID c, c_Receiver_ID c, Timestamp c)) (claims (db s))
   \<and> map Status (claims (db (snd (rerun gen (Update_claim cid new_status) s))))
       = map (\<lambda>c. if Claim_ID c = cid then Some new_status else Status c) (claims (db s))
   \<and> fst (rerun gen (Update_claim cid new_status) s)
       = \<lparr>issued = Some (Update_claim_status new_status cid), outcome = Done\<rparr>"
  by (simp add: rerun_eq submit_def loaded_db comp_def)

end
